theory Spec2Isabelle
  imports Complex_Main
begin

section \<open>Tensors and errors\<close>

text \<open>
  The program is PyTorch code. Its tensors hold 32-bit floats; the embedding computes over
  the reals, so every statement below is about the exact arithmetic the code approximates.
  A raised exception is a value \<open>Inl e\<close> of the result type \<open>error + 'a\<close>.
\<close>

datatype error =
    IndexError        \<comment> \<open>index out of range in \<open>P[k, j] = v\<close>\<close>
  | ShapeError        \<comment> \<open>RuntimeError: sizes do not match / cannot be broadcast / multiplied\<close>
  | EmptyCat          \<comment> \<open>RuntimeError: \<open>torch.cat\<close> of an empty list\<close>
  | NegativeDim       \<comment> \<open>RuntimeError: trying to create a tensor with a negative dimension\<close>
  | BadProbability    \<comment> \<open>ValueError: dropout probability outside \<open>[0, 1]\<close>\<close>

text \<open>
  A tensor keeps its shape as torch does, also when a dimension is 0: \<open>T2 c rows\<close> has shape
  \<open>[length rows, c]\<close>, \<open>T3 s c ms\<close> has shape \<open>[length ms, s, c]\<close>.
\<close>

datatype tensor =
    T2 nat "real list list"
  | T3 nat nat "real list list list"

fun shape :: "tensor \<Rightarrow> nat list" where
  "shape (T2 c rows) = [length rows, c]"
| "shape (T3 s c ms) = [length ms, s, c]"

definition wf_rows :: "nat \<Rightarrow> real list list \<Rightarrow> bool" where
  "wf_rows c rows = list_all (\<lambda>r. length r = c) rows"

fun wf :: "tensor \<Rightarrow> bool" where
  "wf (T2 c rows) = wf_rows c rows"
| "wf (T3 s c ms) = list_all (\<lambda>m. length m = s \<and> wf_rows c m) ms"

definition bind :: "error + 'a \<Rightarrow> ('a \<Rightarrow> error + 'b) \<Rightarrow> error + 'b" where
  "bind m f = (case m of Inl e \<Rightarrow> Inl e | Inr a \<Rightarrow> f a)"

text \<open>A \<open>for\<close> loop whose body may raise: the first error ends the loop.\<close>

fun for_loop :: "'a list \<Rightarrow> ('a \<Rightarrow> 's \<Rightarrow> error + 's) \<Rightarrow> 's \<Rightarrow> error + 's" where
  "for_loop [] body s = Inr s"
| "for_loop (x # xs) body s = bind (body x s) (for_loop xs body)"

section \<open>utils.py\<close>

text \<open>\<open>torch.zeros((n, c))\<close>.\<close>

definition zeros :: "nat \<Rightarrow> nat \<Rightarrow> real list list" where
  "zeros n c = replicate n (replicate c 0)"

text \<open>\<open>P[k, j] = v\<close> on a matrix, raising IndexError out of range.\<close>

definition setitem :: "real list list \<Rightarrow> nat \<Rightarrow> nat \<Rightarrow> real \<Rightarrow> error + real list list" where
  "setitem P k j v =
     (if k < length P \<and> j < length (P ! k) then Inr (P[k := (P ! k)[j := v]])
      else Inl IndexError)"

text \<open>
  The body of the inner loop of \<open>getPositionEncoding\<close>. \<open>2*i/d\<close> is true division and
  \<open>torch.pow\<close> a real power.
\<close>

definition pe_body :: "nat \<Rightarrow> real \<Rightarrow> nat \<Rightarrow> nat \<Rightarrow> real list list \<Rightarrow> error + real list list" where
  "pe_body d n k i P =
     (let denominator = n powr (real (2 * i) / real d) in
      bind (setitem P k (2 * i) (sin (real k / denominator)))
        (\<lambda>P'. setitem P' k (2 * i + 1) (cos (real k / denominator))))"

text \<open>
  \<open>torch.zeros\<close> refuses a negative size. \<open>int(d/2)\<close> truncates; on a natural number it is
  \<open>d div 2\<close>. The default base is \<open>n = 10000\<close>.
\<close>

definition getPositionEncoding :: "int \<Rightarrow> int \<Rightarrow> real \<Rightarrow> error + real list list" where
  "getPositionEncoding seq_len d n =
     (if seq_len < 0 \<or> d < 0 then Inl NegativeDim
      else for_loop [0..<nat seq_len]
             (\<lambda>k. for_loop [0..<nat d div 2] (pe_body (nat d) n k))
             (zeros (nat seq_len) (nat d)))"

definition mask_body :: "nat \<Rightarrow> nat \<Rightarrow> real list list \<Rightarrow> error + real list list" where
  "mask_body i j m = (if i \<le> j then setitem m i j 1 else Inr m)"

definition getMask :: "int \<Rightarrow> error + real list list" where
  "getMask seq_len =
     (if seq_len < 0 then Inl NegativeDim
      else for_loop [0..<nat seq_len]
             (\<lambda>i. for_loop [0..<nat seq_len] (mask_body i))
             (zeros (nat seq_len) (nat seq_len)))"

text \<open>The closed forms the two loops are compared with.\<close>

definition pe_entry :: "nat \<Rightarrow> real \<Rightarrow> nat \<Rightarrow> nat \<Rightarrow> real" where
  "pe_entry d n k j =
     (if j < 2 * (d div 2) then
        (if even j then sin (real k / n powr (real j / real d))
         else cos (real k / n powr (real (j - 1) / real d)))
      else 0)"

definition pe_partial :: "nat \<Rightarrow> nat \<Rightarrow> real \<Rightarrow> nat \<Rightarrow> nat \<Rightarrow> real list list" where
  "pe_partial S d n K M =
     map (\<lambda>r. map (\<lambda>j. if r < K \<or> (r = K \<and> j < 2 * M) then pe_entry d n r j else 0) [0..<d])
       [0..<S]"

definition mask_partial :: "nat \<Rightarrow> nat \<Rightarrow> nat \<Rightarrow> real list list" where
  "mask_partial S I J =
     map (\<lambda>i. map (\<lambda>j. if (i < I \<or> (i = I \<and> j < J)) \<and> i \<le> j then 1 else 0) [0..<S]) [0..<S]"

definition upper_triangular :: "nat \<Rightarrow> real list list" where
  "upper_triangular S = map (\<lambda>i. map (\<lambda>j. if i \<le> j then 1 else 0) [0..<S]) [0..<S]"

definition pe_table :: "nat \<Rightarrow> nat \<Rightarrow> real \<Rightarrow> real list list" where
  "pe_table S d n = map (\<lambda>k. map (pe_entry d n k) [0..<d]) [0..<S]"

section \<open>model.py: the torch operations it calls\<close>

text \<open>
  Broadcasting of two sizes: equal sizes stay, a size 1 stretches to the other (also to 0),
  anything else is a RuntimeError.
\<close>

definition bdim :: "nat \<Rightarrow> nat \<Rightarrow> error + nat" where
  "bdim a b =
     (if a = b then Inr a else if a = 1 then Inr b else if b = 1 then Inr a else Inl ShapeError)"

text \<open>
  Stretching along one dimension to the broadcast size \<open>n\<close>; it is applied to lists of length
  \<open>n\<close> or 1 only.
\<close>

definition expand :: "nat \<Rightarrow> 'a list \<Rightarrow> 'a list" where
  "expand n xs = (if length xs = n then xs else replicate n (hd xs))"

definition add_vec :: "nat \<Rightarrow> real list \<Rightarrow> real list \<Rightarrow> real list" where
  "add_vec c u v = map2 (+) (expand c u) (expand c v)"

definition add_mat :: "nat \<Rightarrow> nat \<Rightarrow> real list list \<Rightarrow> real list list \<Rightarrow> real list list" where
  "add_mat s c a b = map2 (add_vec c) (expand s a) (expand s b)"

definition add3 ::
  "nat \<Rightarrow> nat \<Rightarrow> real list list list \<Rightarrow> nat \<Rightarrow> nat \<Rightarrow> real list list list \<Rightarrow> error + tensor" where
  "add3 s1 c1 b1 s2 c2 b2 =
     bind (bdim c1 c2) (\<lambda>c.
     bind (bdim s1 s2) (\<lambda>s.
     bind (bdim (length b1) (length b2)) (\<lambda>n.
       Inr (T3 s c (map2 (add_mat s c) (expand n b1) (expand n b2))))))"

text \<open>\<open>a + b\<close> on tensors. A 2-d operand meets a 3-d one as a batch of one.\<close>

fun tensor_add :: "tensor \<Rightarrow> tensor \<Rightarrow> error + tensor" where
  "tensor_add (T2 c1 m1) (T2 c2 m2) =
     bind (bdim c1 c2) (\<lambda>c.
     bind (bdim (length m1) (length m2)) (\<lambda>s.
       Inr (T2 c (add_mat s c m1 m2))))"
| "tensor_add (T3 s1 c1 b1) (T2 c2 m2) = add3 s1 c1 b1 (length m2) c2 [m2]"
| "tensor_add (T2 c1 m1) (T3 s2 c2 b2) = add3 (length m1) c1 [m1] s2 c2 b2"
| "tensor_add (T3 s1 c1 b1) (T3 s2 c2 b2) = add3 s1 c1 b1 s2 c2 b2"

text \<open>
  \<open>nn.Linear\<close>: \<open>weight\<close> has shape \<open>[out_features, in_features]\<close>, \<open>bias\<close> has shape
  \<open>[out_features]\<close>; the layer maps every vector \<open>r\<close> of the last dimension to
  \<open>r \<cdot> weight\<^sup>T + bias\<close>.
\<close>

record nn_linear =
  in_features :: nat
  out_features :: nat
  weight :: "real list list"
  bias :: "real list"

definition dot :: "real list \<Rightarrow> real list \<Rightarrow> real" where
  "dot u v = sum_list (map2 (*) u v)"

definition linear_row :: "nn_linear \<Rightarrow> real list \<Rightarrow> real list" where
  "linear_row l r = map2 (\<lambda>w b. dot r w + b) (weight l) (bias l)"

fun Linear_forward :: "nn_linear \<Rightarrow> tensor \<Rightarrow> error + tensor" where
  "Linear_forward l (T2 c m) =
     (if c = in_features l then Inr (T2 (out_features l) (map (linear_row l) m))
      else Inl ShapeError)"
| "Linear_forward l (T3 s c b) =
     (if c = in_features l then Inr (T3 s (out_features l) (map (map (linear_row l)) b))
      else Inl ShapeError)"

text \<open>\<open>t.transpose(1, 0)\<close> swaps the first two dimensions.\<close>

fun transpose10 :: "tensor \<Rightarrow> tensor" where
  "transpose10 (T2 c m) = T2 (length m) (map (\<lambda>j. map (\<lambda>r. r ! j) m) [0..<c])"
| "transpose10 (T3 s c b) = T3 (length b) c (map (\<lambda>i. map (\<lambda>m. m ! i) b) [0..<s])"

text \<open>The product of an \<open>[n, m]\<close> matrix with an \<open>[m, p]\<close> matrix.\<close>

definition mat_mul :: "real list list \<Rightarrow> nat \<Rightarrow> real list list \<Rightarrow> real list list" where
  "mat_mul a p b = map (\<lambda>r. map (\<lambda>j. dot r (map (\<lambda>br. br ! j) b)) [0..<p]) a"

definition matmul3 ::
  "nat \<Rightarrow> nat \<Rightarrow> real list list list \<Rightarrow> nat \<Rightarrow> nat \<Rightarrow> real list list list \<Rightarrow> error + tensor" where
  "matmul3 s1 c1 b1 s2 c2 b2 =
     (if c1 = s2 then
        bind (bdim (length b1) (length b2)) (\<lambda>n.
          Inr (T3 s1 c2 (map2 (\<lambda>x y. mat_mul x c2 y) (expand n b1) (expand n b2))))
      else Inl ShapeError)"

text \<open>
  \<open>torch.matmul\<close>: the last two dimensions are multiplied, the batch dimensions broadcast.
\<close>

fun matmul :: "tensor \<Rightarrow> tensor \<Rightarrow> error + tensor" where
  "matmul (T2 c1 m1) (T2 c2 m2) =
     (if c1 = length m2 then Inr (T2 c2 (mat_mul m1 c2 m2)) else Inl ShapeError)"
| "matmul (T3 s1 c1 b1) (T2 c2 m2) = matmul3 s1 c1 b1 (length m2) c2 [m2]"
| "matmul (T2 c1 m1) (T3 s2 c2 b2) = matmul3 (length m1) c1 [m1] s2 c2 b2"
| "matmul (T3 s1 c1 b1) (T3 s2 c2 b2) = matmul3 s1 c1 b1 s2 c2 b2"

text \<open>
  \<open>F.softmax(t)\<close> without \<open>dim\<close>: torch takes dimension 1 for a 2-d tensor (every row is
  normalised) and dimension 0 for a 3-d tensor (normalised across the batch).
\<close>

definition softmax_row :: "real list \<Rightarrow> real list" where
  "softmax_row r = map (\<lambda>x. exp x / sum_list (map exp r)) r"

fun softmax :: "tensor \<Rightarrow> tensor" where
  "softmax (T2 c m) = T2 c (map softmax_row m)"
| "softmax (T3 s c b) =
     T3 s c (map (\<lambda>m. map (\<lambda>i. map (\<lambda>j.
        exp (m ! i ! j) / sum_list (map (\<lambda>m'. exp (m' ! i ! j)) b)) [0..<c]) [0..<s]) b)"

text \<open>
  Division of a tensor by a scalar. Floats divide by zero without raising (the result is
  \<open>inf\<close> or \<open>nan\<close>); the reals of HOL give 0 there, so values are only meaningful for a
  divisor other than 0.
\<close>

fun tensor_div :: "tensor \<Rightarrow> real \<Rightarrow> tensor" where
  "tensor_div (T2 c m) a = T2 c (map (map (\<lambda>x. x / a)) m)"
| "tensor_div (T3 s c b) a = T3 s c (map (map (map (\<lambda>x. x / a))) b)"

text \<open>\<open>torch.cat(ts, dim=1)\<close>: the other dimensions must agree; an empty list is refused.\<close>

fun cat_pair :: "tensor \<Rightarrow> tensor \<Rightarrow> error + tensor" where
  "cat_pair (T2 c1 m1) (T2 c2 m2) =
     (if length m1 = length m2 then Inr (T2 (c1 + c2) (map2 (@) m1 m2)) else Inl ShapeError)"
| "cat_pair (T3 s1 c1 b1) (T3 s2 c2 b2) =
     (if length b1 = length b2 \<and> c1 = c2 then Inr (T3 (s1 + s2) c1 (map2 (@) b1 b2))
      else Inl ShapeError)"
| "cat_pair (T2 c1 m1) (T3 s2 c2 b2) = Inl ShapeError"
| "cat_pair (T3 s1 c1 b1) (T2 c2 m2) = Inl ShapeError"

fun cat1 :: "tensor list \<Rightarrow> error + tensor" where
  "cat1 [] = Inl EmptyCat"
| "cat1 [t] = Inr t"
| "cat1 (t # ts) = bind (cat1 ts) (cat_pair t)"

text \<open>
  \<open>nn.LayerNorm(V)\<close>: every vector of the last dimension, which must have length \<open>V\<close>, is
  shifted to mean 0, scaled by \<open>1 / sqrt (variance + eps)\<close>, and then scaled and shifted by the
  learned \<open>ln_weight\<close> and \<open>ln_bias\<close>.
\<close>

record nn_layer_norm =
  normalized_shape :: nat
  ln_weight :: "real list"
  ln_bias :: "real list"
  eps :: real

definition mean :: "real list \<Rightarrow> real" where
  "mean r = sum_list r / real (length r)"

definition layer_norm_row :: "nn_layer_norm \<Rightarrow> real list \<Rightarrow> real list" where
  "layer_norm_row nrm r =
     (let mu = mean r; var = mean (map (\<lambda>x. (x - mu)\<^sup>2) r) in
      map (\<lambda>i. (r ! i - mu) / sqrt (var + eps nrm) * ln_weight nrm ! i + ln_bias nrm ! i)
        [0..<normalized_shape nrm])"

fun LayerNorm_forward :: "nn_layer_norm \<Rightarrow> tensor \<Rightarrow> error + tensor" where
  "LayerNorm_forward nrm (T2 c m) =
     (if c = normalized_shape nrm then Inr (T2 c (map (layer_norm_row nrm) m)) else Inl ShapeError)"
| "LayerNorm_forward nrm (T3 s c b) =
     (if c = normalized_shape nrm then Inr (T3 s c (map (map (layer_norm_row nrm)) b))
      else Inl ShapeError)"

fun relu :: "tensor \<Rightarrow> tensor" where
  "relu (T2 c m) = T2 c (map (map (max 0)) m)"
| "relu (T3 s c b) = T3 s c (map (map (map (max 0))) b)"

section \<open>model.py: the modules\<close>

text \<open>
  The forward passes are embedded in evaluation mode (\<open>module.eval()\<close>), where \<open>nn.Dropout\<close> is
  the identity. In training mode dropout scales its input by a random 0/1 mask: other values,
  the same shapes and the same errors.
\<close>

datatype layer = Linear nn_linear | ReLU | Dropout real

fun layer_forward :: "layer \<Rightarrow> tensor \<Rightarrow> error + tensor" where
  "layer_forward (Linear l) x = Linear_forward l x"
| "layer_forward ReLU x = Inr (relu x)"
| "layer_forward (Dropout p) x = Inr x"

text \<open>\<open>FFN.forward\<close>: \<open>nn.Sequential\<close> feeds the layers in order.\<close>

definition FFN_forward :: "layer list \<Rightarrow> tensor \<Rightarrow> error + tensor" where
  "FFN_forward ffn x = for_loop ffn layer_forward x"

record attention_head =
  Q :: nn_linear
  K :: nn_linear
  V :: nn_linear

text \<open>
  \<open>AttentionHead.forward\<close> up to \<open>q_k_softmax\<close>, the matrix that multiplies \<open>v\<close>: the softmax
  of \<open>q \<cdot> k\<^sup>T\<close> is taken first and its result divided by \<open>sqrt (k.shape[1])\<close>.
\<close>

definition q_k_softmax :: "attention_head \<Rightarrow> tensor \<Rightarrow> error + tensor \<times> tensor" where
  "q_k_softmax h x =
     bind (Linear_forward (Q h) x) (\<lambda>q.
     bind (Linear_forward (K h) x) (\<lambda>k.
     bind (Linear_forward (V h) x) (\<lambda>v.
     let k_transpose = transpose10 k in
     bind (matmul q k_transpose) (\<lambda>q_k_transpose.
       Inr (tensor_div (softmax q_k_transpose) (sqrt (real (shape k ! 1))), v)))))"

definition AttentionHead_forward :: "attention_head \<Rightarrow> tensor \<Rightarrow> error + tensor" where
  "AttentionHead_forward h x = bind (q_k_softmax h x) (\<lambda>(w, v). matmul w v)"

record multi_head_attention =
  attention_heads :: "attention_head list"
  linear_merge :: nn_linear   \<comment> \<open>\<open>self.linear\<close>\<close>

definition MultiHeadAttention_forward :: "multi_head_attention \<Rightarrow> tensor \<Rightarrow> error + tensor" where
  "MultiHeadAttention_forward m x =
     bind (for_loop (attention_heads m)
             (\<lambda>h z. bind (AttentionHead_forward h x) (\<lambda>zi. Inr (z @ [zi]))) [])
       (\<lambda>z. bind (cat1 z) (Linear_forward (linear_merge m)))"

record encoder_block =
  ffn :: "layer list"
  multi_head_attention :: multi_head_attention
  layer_norm1 :: nn_layer_norm
  layer_norm2 :: nn_layer_norm

definition EncoderBlock_forward :: "encoder_block \<Rightarrow> tensor \<Rightarrow> error + tensor" where
  "EncoderBlock_forward b x =
     bind (MultiHeadAttention_forward (multi_head_attention b) x) (\<lambda>z.
     bind (tensor_add x z) (\<lambda>xz.
     bind (LayerNorm_forward (layer_norm1 b) xz) (\<lambda>z.
     bind (FFN_forward (ffn b) z) (\<lambda>z1.
     bind (tensor_add z z1) (\<lambda>zz1.
       LayerNorm_forward (layer_norm2 b) zz1)))))"

record encoder =
  multiencoder :: "encoder_block list"
  num_encoder :: int
  pos_encoding :: tensor
  attention_mask :: "tensor option"

text \<open>
  \<open>Encoder.forward\<close>: the whole table \<open>self.pos_encoding\<close> is added (with broadcasting), then
  the blocks \<open>multiencoder[0]\<close>, ..., \<open>multiencoder[num_encoder - 1]\<close> are applied in turn.
\<close>

definition Encoder_forward :: "encoder \<Rightarrow> tensor \<Rightarrow> error + tensor" where
  "Encoder_forward e x =
     bind (tensor_add x (pos_encoding e)) (\<lambda>z.
       for_loop [0..<nat (num_encoder e)]
         (\<lambda>i z. if i < length (multiencoder e) then EncoderBlock_forward (multiencoder e ! i) z
                else Inl IndexError)
         z)"

subsection \<open>Construction\<close>

text \<open>
  torch fills a new \<open>nn.Linear\<close> from its random generator; the embedding takes the initial
  entries from a parameter \<open>w\<close> (row, column; the bias is column \<open>in_features\<close>). torch refuses
  a negative size and accepts size 0.
\<close>

definition nn_Linear :: "(nat \<Rightarrow> nat \<Rightarrow> real) \<Rightarrow> int \<Rightarrow> int \<Rightarrow> error + nn_linear" where
  "nn_Linear w n_in n_out =
     (if n_in < 0 \<or> n_out < 0 then Inl NegativeDim
      else Inr \<lparr>in_features = nat n_in, out_features = nat n_out,
                weight = map (\<lambda>r. map (w r) [0..<nat n_in]) [0..<nat n_out],
                bias = map (\<lambda>r. w r (nat n_in)) [0..<nat n_out]\<rparr>)"

definition nn_Dropout :: "real \<Rightarrow> error + layer" where
  "nn_Dropout p = (if p < 0 \<or> 1 < p then Inl BadProbability else Inr (Dropout p))"

text \<open>\<open>nn.LayerNorm(V)\<close> starts with weight 1, bias 0 and \<open>eps = 1e-5\<close>.\<close>

definition nn_LayerNorm :: "int \<Rightarrow> error + nn_layer_norm" where
  "nn_LayerNorm v =
     (if v < 0 then Inl NegativeDim
      else Inr \<lparr>normalized_shape = nat v, ln_weight = replicate (nat v) 1,
                ln_bias = replicate (nat v) 0, eps = 1 / 100000\<rparr>)"

text \<open>\<open>FFN.__init__\<close>; \<open>range(num_layers - 2)\<close> is empty when \<open>num_layers \<le> 2\<close>.\<close>

definition FFN_init ::
  "(nat \<Rightarrow> nat \<Rightarrow> real) \<Rightarrow> int \<Rightarrow> int \<Rightarrow> int \<Rightarrow> int \<Rightarrow> real \<Rightarrow> error + layer list" where
  "FFN_init w input_size hidden_size output_size num_layers dropout_p =
     bind (nn_Linear w input_size hidden_size) (\<lambda>l1.
     bind (nn_Dropout dropout_p) (\<lambda>d1.
     bind (for_loop [0..<nat (num_layers - 2)]
             (\<lambda>_ layers.
                bind (nn_Linear w hidden_size hidden_size) (\<lambda>l.
                bind (nn_Dropout dropout_p) (\<lambda>d. Inr (layers @ [Linear l, ReLU, d]))))
             [Linear l1, ReLU, d1]) (\<lambda>layers.
     bind (nn_Linear w hidden_size output_size) (\<lambda>l2.
       Inr (layers @ [Linear l2])))))"

definition AttentionHead_init ::
  "(nat \<Rightarrow> nat \<Rightarrow> real) \<Rightarrow> int \<Rightarrow> int \<Rightarrow> int \<Rightarrow> error + attention_head" where
  "AttentionHead_init w Qn Kn Vn =
     bind (nn_Linear w Qn Qn) (\<lambda>q.
     bind (nn_Linear w Kn Kn) (\<lambda>k.
     bind (nn_Linear w Vn Vn) (\<lambda>v.
       Inr \<lparr>Q = q, K = k, V = v\<rparr>)))"

definition MultiHeadAttention_init ::
  "(nat \<Rightarrow> nat \<Rightarrow> real) \<Rightarrow> int \<Rightarrow> int \<Rightarrow> int \<Rightarrow> int \<Rightarrow> error + multi_head_attention" where
  "MultiHeadAttention_init w Qn Kn Vn num_heads =
     bind (nn_Linear w (num_heads * Vn) Vn) (\<lambda>l.
     bind (for_loop [0..<nat num_heads]
             (\<lambda>_ hs. bind (AttentionHead_init w Qn Kn Vn) (\<lambda>h. Inr (hs @ [h]))) []) (\<lambda>hs.
       Inr \<lparr>attention_heads = hs, linear_merge = l\<rparr>))"

definition EncoderBlock_init ::
  "(nat \<Rightarrow> nat \<Rightarrow> real) \<Rightarrow> int \<Rightarrow> int \<Rightarrow> int \<Rightarrow> int \<Rightarrow> int \<Rightarrow> int \<Rightarrow> real \<Rightarrow> error + encoder_block" where
  "EncoderBlock_init w Qn Kn Vn num_heads hidden_size num_layers dropout_p =
     bind (FFN_init w Vn hidden_size Vn num_layers dropout_p) (\<lambda>f.
     bind (MultiHeadAttention_init w Qn Kn Vn num_heads) (\<lambda>m.
     bind (nn_LayerNorm Vn) (\<lambda>n1.
     bind (nn_LayerNorm Vn) (\<lambda>n2.
       Inr \<lparr>ffn = f, multi_head_attention = m, layer_norm1 = n1, layer_norm2 = n2\<rparr>))))"

definition Encoder_init ::
  "(nat \<Rightarrow> nat \<Rightarrow> real) \<Rightarrow> int \<Rightarrow> int \<Rightarrow> int \<Rightarrow> int \<Rightarrow> int \<Rightarrow> int \<Rightarrow> int \<Rightarrow> int \<Rightarrow> real
     \<Rightarrow> error + encoder" where
  "Encoder_init w Qn Kn Vn num_heads num_enc max_len hidden_size num_layers dropout_p =
     bind (for_loop [0..<nat num_enc]
             (\<lambda>_ bs. bind (EncoderBlock_init w Qn Kn Vn num_heads hidden_size num_layers dropout_p)
                       (\<lambda>b. Inr (bs @ [b]))) []) (\<lambda>bs.
     bind (getPositionEncoding max_len Vn 10000) (\<lambda>P.
       Inr \<lparr>multiencoder = bs, num_encoder = num_enc, pos_encoding = T2 (nat Vn) P,
            attention_mask = None\<rparr>))"

section \<open>Well-formed modules\<close>

text \<open>
  The parameters of a module have the shapes its constructor gives them; training changes the
  entries, never the shapes. \<open>d\<close> is the model width.
\<close>

definition wf_linear :: "nn_linear \<Rightarrow> bool" where
  "wf_linear l =
     (length (weight l) = out_features l \<and> wf_rows (in_features l) (weight l) \<and>
      length (bias l) = out_features l)"

definition wf_square :: "nat \<Rightarrow> nn_linear \<Rightarrow> bool" where
  "wf_square d l = (wf_linear l \<and> in_features l = d \<and> out_features l = d)"

definition wf_head :: "nat \<Rightarrow> attention_head \<Rightarrow> bool" where
  "wf_head d h = (wf_square d (Q h) \<and> wf_square d (K h) \<and> wf_square d (V h))"

definition wf_mha :: "nat \<Rightarrow> multi_head_attention \<Rightarrow> bool" where
  "wf_mha d m =
     (attention_heads m \<noteq> [] \<and> list_all (wf_head d) (attention_heads m) \<and>
      wf_linear (linear_merge m) \<and>
      in_features (linear_merge m) = length (attention_heads m) * d \<and>
      out_features (linear_merge m) = d)"

text \<open>The width a layer list turns the width \<open>c\<close> into, when every layer fits.\<close>

fun ffn_width :: "layer list \<Rightarrow> nat \<Rightarrow> nat option" where
  "ffn_width [] c = Some c"
| "ffn_width (Linear l # ls) c =
     (if wf_linear l \<and> in_features l = c then ffn_width ls (out_features l) else None)"
| "ffn_width (ReLU # ls) c = ffn_width ls c"
| "ffn_width (Dropout p # ls) c = ffn_width ls c"

definition wf_block :: "nat \<Rightarrow> encoder_block \<Rightarrow> bool" where
  "wf_block d b =
     (ffn_width (ffn b) d = Some d \<and> wf_mha d (multi_head_attention b) \<and>
      normalized_shape (layer_norm1 b) = d \<and> normalized_shape (layer_norm2 b) = d)"

text \<open>An encoder of \<open>max_len = L\<close> and width \<open>d\<close>, as \<open>Encoder.__init__\<close> leaves it.\<close>

definition wf_encoder :: "nat \<Rightarrow> nat \<Rightarrow> encoder \<Rightarrow> bool" where
  "wf_encoder L d e =
     (list_all (wf_block d) (multiencoder e) \<and>
      num_encoder e = int (length (multiencoder e)) \<and>
      shape (pos_encoding e) = [L, d] \<and> wf (pos_encoding e))"

section \<open>The attention formula of the specification\<close>

text \<open>
  This definition follows the words of the specification, not the code:
  \<open>Z = softmax (Q \<cdot> K\<^sup>T / sqrt d\<^sub>k) \<cdot> V\<close>, the similarity matrix divided by \<open>sqrt d\<^sub>k\<close> before the
  softmax. It is what \<open>AttentionHead_forward\<close> is compared with.
\<close>

definition spec_attention :: "attention_head \<Rightarrow> tensor \<Rightarrow> error + tensor" where
  "spec_attention h x =
     bind (Linear_forward (Q h) x) (\<lambda>q.
     bind (Linear_forward (K h) x) (\<lambda>k.
     bind (Linear_forward (V h) x) (\<lambda>v.
     bind (matmul q (transpose10 k)) (\<lambda>s.
       matmul (softmax (tensor_div s (sqrt (real (shape k ! 1))))) v))))"

section \<open>Concrete modules and inputs\<close>

text \<open>A linear layer of width \<open>d\<close> with the identity as weight and no bias.\<close>

definition identity_linear :: "nat \<Rightarrow> nn_linear" where
  "identity_linear d =
     \<lparr>in_features = d, out_features = d,
      weight = map (\<lambda>i. map (\<lambda>j. if i = j then 1 else 0) [0..<d]) [0..<d],
      bias = replicate d 0\<rparr>"

definition head4 :: attention_head where
  "head4 = \<lparr>Q = identity_linear 4, K = identity_linear 4, V = identity_linear 4\<rparr>"

text \<open>Two positions of width 4, both the first unit vector.\<close>

definition x_2_4 :: tensor where
  "x_2_4 = T2 4 [[1, 0, 0, 0], [1, 0, 0, 0]]"

text \<open>An initialiser that fills every new weight and bias with 0.\<close>

definition zero_init :: "nat \<Rightarrow> nat \<Rightarrow> real" where
  "zero_init r c = 0"

text \<open>Whether a call raised.\<close>

definition raises :: "error + 'a \<Rightarrow> bool" where
  "raises m = (case m of Inl e \<Rightarrow> True | Inr a \<Rightarrow> False)"

text \<open>A linear layer from width \<open>i\<close> to width \<open>j\<close> with every weight \<open>a\<close> and no bias.\<close>

definition const_linear :: "nat \<Rightarrow> nat \<Rightarrow> real \<Rightarrow> nn_linear" where
  "const_linear i j a =
     \<lparr>in_features = i, out_features = j, weight = replicate j (replicate i a),
      bias = replicate j 0\<rparr>"

definition example_head :: "nat \<Rightarrow> attention_head" where
  "example_head d = \<lparr>Q = identity_linear d, K = identity_linear d, V = identity_linear d\<rparr>"

definition example_layer_norm :: "nat \<Rightarrow> nn_layer_norm" where
  "example_layer_norm d =
     \<lparr>normalized_shape = d, ln_weight = replicate d 1, ln_bias = replicate d 0,
      eps = 1 / 100000\<rparr>"

text \<open>An encoder block of width \<open>d\<close> with \<open>H\<close> heads and a two-layer FFN of hidden width \<open>2 * d\<close>.\<close>

definition example_block :: "nat \<Rightarrow> nat \<Rightarrow> encoder_block" where
  "example_block d H =
     \<lparr>ffn = [Linear (const_linear d (2 * d) (1/2)), ReLU, Dropout (1/10),
             Linear (const_linear (2 * d) d (1/2))],
      multi_head_attention =
        \<lparr>attention_heads = replicate H (example_head d),
         linear_merge = const_linear (H * d) d (1/2)\<rparr>,
      layer_norm1 = example_layer_norm d, layer_norm2 = example_layer_norm d\<rparr>"

text \<open>An encoder of \<open>N\<close> such blocks, with the positional table of \<open>max_len = L\<close>.\<close>

definition example_encoder :: "nat \<Rightarrow> nat \<Rightarrow> nat \<Rightarrow> nat \<Rightarrow> encoder" where
  "example_encoder N H L d =
     \<lparr>multiencoder = replicate N (example_block d H), num_encoder = int N,
      pos_encoding = T2 d (pe_table L d 10000), attention_mask = None\<rparr>"

text \<open>The all-zero tensors of shape \<open>[n, c]\<close> and \<open>[b, s, c]\<close>.\<close>

definition zeros2 :: "nat \<Rightarrow> nat \<Rightarrow> tensor" where
  "zeros2 n c = T2 c (zeros n c)"

definition zeros3 :: "nat \<Rightarrow> nat \<Rightarrow> nat \<Rightarrow> tensor" where
  "zeros3 b s c = T3 s c (replicate b (zeros s c))"

section \<open>Loops\<close>

lemma bind_Inr [simp]: "bind (Inr a) f = f a"
  by (simp add: bind_def)

lemma bind_Inl [simp]: "bind (Inl e) f = Inl e"
  by (simp add: bind_def)

lemma for_loop_append:
  "for_loop (xs @ ys) body s = bind (for_loop xs body s) (for_loop ys body)"
  by (induction xs arbitrary: s) (auto simp: bind_def split: sum.splits)

lemma for_loop_upt_invariant:
  assumes step: "\<And>i. i < m \<Longrightarrow> body i (I i) = Inr (I (Suc i))"
  shows "for_loop [0..<m] body (I 0) = Inr (I m)"
  using step
proof (induction m)
  case 0
  show ?case by simp
next
  case (Suc m)
  have "for_loop [0..<m] body (I 0) = Inr (I m)"
    using Suc by simp
  moreover have "body m (I m) = Inr (I (Suc m))"
    using Suc.prems by simp
  ultimately show ?case
    by (simp add: for_loop_append)
qed

section \<open>The mask\<close>

lemma mask_body_step:
  assumes "I < S" "j < S"
  shows "mask_body I j (mask_partial S I j) = Inr (mask_partial S I (Suc j))"
  using assms
  unfolding mask_body_def setitem_def mask_partial_def
  by (auto intro!: nth_equalityI simp: nth_list_update less_Suc_eq)

lemma mask_partial_row_done: "mask_partial S I S = mask_partial S (Suc I) 0"
  unfolding mask_partial_def by (auto simp: less_Suc_eq)

lemma mask_inner:
  assumes "I < S"
  shows "for_loop [0..<S] (mask_body I) (mask_partial S I 0) = Inr (mask_partial S (Suc I) 0)"
proof -
  have "for_loop [0..<S] (mask_body I) (mask_partial S I 0) = Inr (mask_partial S I S)"
    by (rule for_loop_upt_invariant [where I = "mask_partial S I"]) (simp add: mask_body_step assms)
  then show ?thesis by (simp add: mask_partial_row_done)
qed

lemma mask_partial_0: "mask_partial S 0 0 = zeros S S"
  unfolding mask_partial_def zeros_def by (simp add: map_replicate_const)

lemma mask_partial_S: "mask_partial S S 0 = upper_triangular S"
  unfolding mask_partial_def upper_triangular_def by simp

lemma mask_loops:
  "for_loop [0..<S] (\<lambda>i. for_loop [0..<S] (mask_body i)) (zeros S S) = Inr (upper_triangular S)"
proof -
  have "for_loop [0..<S] (\<lambda>i. for_loop [0..<S] (mask_body i)) (mask_partial S 0 0)
          = Inr (mask_partial S S 0)"
    by (rule for_loop_upt_invariant [where I = "\<lambda>i. mask_partial S i 0"]) (simp add: mask_inner)
  then show ?thesis
    by (simp add: mask_partial_0 mask_partial_S)
qed

lemma getMask_upper_triangular:
  "0 \<le> seq_len \<Longrightarrow> getMask seq_len = Inr (upper_triangular (nat seq_len))"
  by (simp add: getMask_def mask_loops)

text \<open>
  Claim C9. For \<open>seq_len > 0\<close>, \<open>getMask(seq_len)\<close> returns, without raising, the
  \<open>[seq_len, seq_len]\<close> matrix whose entry \<open>(i, j)\<close> is 1 when \<open>i \<le> j\<close> and 0 otherwise;
  \<open>getMask(3)\<close> is \<open>[[1,1,1],[0,1,1],[0,0,1]]\<close>.
\<close>

theorem getMask_correct:
  "(0 < seq_len \<longrightarrow>
      getMask seq_len =
        Inr (map (\<lambda>i. map (\<lambda>j. if i \<le> j then 1 else 0) [0..<nat seq_len]) [0..<nat seq_len]))
   \<and> getMask 3 = Inr [[1, 1, 1], [0, 1, 1], [0, 0, 1]]"
proof -
  have "[0..<3] = [0, Suc 0, Suc (Suc 0)]"
    by (simp add: upt_rec numeral_3_eq_3)
  then have "upper_triangular 3 = [[1, 1, 1], [0, 1, 1], [0, 0, 1]]"
    by (simp add: upper_triangular_def)
  moreover have "nat 3 = (3::nat)" by simp
  ultimately have "getMask 3 = Inr [[1, 1, 1], [0, 1, 1], [0, 0, 1]]"
    using getMask_upper_triangular [of 3] by simp
  then show ?thesis
    by (simp add: getMask_upper_triangular upper_triangular_def)
qed

theorem getMask_correct_witness:
  "(0::int) < 2 \<and> getMask 2 = Inr [[1, 1], [0, 1]]"
proof -
  have "[0..<2] = [0, Suc 0]"
    by (simp add: upt_rec numeral_2_eq_2)
  moreover have "nat 2 = (2::nat)" by simp
  ultimately show ?thesis
    using getMask_correct [of 2] by simp
qed

section \<open>The positional encoding table\<close>

lemma pe_body_step:
  assumes "r < S" "i < d div 2"
  shows "pe_body d n r i (pe_partial S d n r i) = Inr (pe_partial S d n r (Suc i))"
proof -
  have j: "2 * i + 1 < d" using assms by arith
  let ?den = "n powr (real (2 * i) / real d)"
  have e0: "pe_entry d n r (2 * i) = sin (real r / ?den)"
    using assms by (simp add: pe_entry_def)
  have e1: "pe_entry d n r (2 * i + 1) = cos (real r / ?den)"
    using assms by (simp add: pe_entry_def)
  show ?thesis
    using assms j e0 e1
    unfolding pe_body_def setitem_def pe_partial_def Let_def
    by (auto intro!: nth_equalityI simp: nth_list_update less_Suc_eq)
qed

lemma pe_partial_row_done: "pe_partial S d n r (d div 2) = pe_partial S d n (Suc r) 0"
  unfolding pe_partial_def by (auto simp: less_Suc_eq pe_entry_def)

lemma pe_partial_0: "pe_partial S d n 0 0 = zeros S d"
  unfolding pe_partial_def zeros_def by (simp add: map_replicate_const)

lemma pe_partial_S: "pe_partial S d n S 0 = pe_table S d n"
  unfolding pe_partial_def pe_table_def by simp

lemma pe_inner:
  assumes "r < S"
  shows "for_loop [0..<d div 2] (pe_body d n r) (pe_partial S d n r 0)
           = Inr (pe_partial S d n (Suc r) 0)"
proof -
  have "for_loop [0..<d div 2] (pe_body d n r) (pe_partial S d n r 0)
          = Inr (pe_partial S d n r (d div 2))"
    by (rule for_loop_upt_invariant [where I = "pe_partial S d n r"]) (simp add: pe_body_step assms)
  then show ?thesis by (simp add: pe_partial_row_done)
qed

lemma pe_loops:
  "for_loop [0..<S] (\<lambda>k. for_loop [0..<d div 2] (pe_body d n k)) (zeros S d) = Inr (pe_table S d n)"
proof -
  have "for_loop [0..<S] (\<lambda>k. for_loop [0..<d div 2] (pe_body d n k)) (pe_partial S d n 0 0)
          = Inr (pe_partial S d n S 0)"
    by (rule for_loop_upt_invariant [where I = "\<lambda>k. pe_partial S d n k 0"]) (simp add: pe_inner)
  then show ?thesis
    by (simp add: pe_partial_0 pe_partial_S)
qed

lemma getPositionEncoding_table:
  "0 \<le> seq_len \<Longrightarrow> 0 \<le> d \<Longrightarrow>
   getPositionEncoding seq_len d n = Inr (pe_table (nat seq_len) (nat d) n)"
  by (simp add: getPositionEncoding_def pe_loops)

lemma getPositionEncoding_negative:
  "seq_len < 0 \<or> d < 0 \<Longrightarrow> getPositionEncoding seq_len d n = Inl NegativeDim"
  by (simp add: getPositionEncoding_def)

lemma length_pe_table [simp]: "length (pe_table S d n) = S"
  by (simp add: pe_table_def)

lemma wf_rows_pe_table [simp]: "wf_rows d (pe_table S d n)"
  by (simp add: pe_table_def wf_rows_def list_all_iff)

lemma nth_concat_replicate_pair:
  "j < 2 * m \<Longrightarrow> concat (replicate m [a, b]) ! j = (if even j then a else b)"
proof (induction m arbitrary: j)
  case 0
  then show ?case by simp
next
  case (Suc m)
  show ?case
  proof (cases j)
    case 0
    then show ?thesis by simp
  next
    case (Suc j1)
    show ?thesis
    proof (cases j1)
      case 0
      with Suc show ?thesis by simp
    next
      case (Suc j2)
      with \<open>j = Suc j1\<close> Suc.prems have "j2 < 2 * m" by simp
      from Suc.IH [OF this] \<open>j = Suc j1\<close> Suc show ?thesis by simp
    qed
  qed
qed

lemma pe_table_row0:
  assumes "even d"
  shows "map (pe_entry d n 0) [0..<d] = concat (replicate (d div 2) [0, 1])"
proof (rule nth_equalityI)
  show "length (map (pe_entry d n 0) [0..<d]) = length (concat (replicate (d div 2) [0::real, 1]))"
  proof -
    have "d div 2 + d div 2 = d" using assms by presburger
    then show ?thesis by (simp add: length_concat sum_list_replicate)
  qed
next
  fix j assume "j < length (map (pe_entry d n 0) [0..<d])"
  then have j: "j < d" by simp
  with assms have j2: "j < 2 * (d div 2)" by simp
  show "map (pe_entry d n 0) [0..<d] ! j = concat (replicate (d div 2) [0, 1]) ! j"
    using j j2 by (simp add: nth_concat_replicate_pair pe_entry_def)
qed

text \<open>
  Claim C4. For \<open>seq_len > 0\<close>, even \<open>d > 0\<close> and base 10000, \<open>getPositionEncoding(seq_len, d)\<close>
  returns, without raising, a table of \<open>seq_len\<close> rows of width \<open>d\<close> with
  \<open>table[k, 2i] = sin (k / n^(2i/d))\<close> and \<open>table[k, 2i+1] = cos (k / n^(2i/d))\<close> for every
  \<open>k < seq_len\<close> and \<open>i < d/2\<close>; its row 0 is \<open>[0, 1, 0, 1, ...]\<close>.
\<close>

theorem getPositionEncoding_closed_form:
  assumes "0 < seq_len" and "0 < d" and "even d"
  shows "\<exists>P. getPositionEncoding seq_len d 10000 = Inr P \<and> length P = nat seq_len \<and>
           (\<forall>k<nat seq_len. length (P ! k) = nat d \<and>
              (\<forall>i<nat d div 2.
                 P ! k ! (2 * i) = sin (real k / 10000 powr (real (2 * i) / real_of_int d)) \<and>
                 P ! k ! (2 * i + 1) = cos (real k / 10000 powr (real (2 * i) / real_of_int d)))) \<and>
           P ! 0 = concat (replicate (nat d div 2) [0, 1])"
proof -
  define S where "S = nat seq_len"
  define c where "c = nat d"
  have S: "0 < S" and c: "0 < c" "even c" and rc: "real_of_int d = real c"
    using assms by (auto simp: S_def c_def even_nat_iff)
  have entries: "pe_table S c 10000 ! k ! (2 * i) = sin (real k / 10000 powr (real (2 * i) / real c)) \<and>
        pe_table S c 10000 ! k ! (2 * i + 1) = cos (real k / 10000 powr (real (2 * i) / real c))"
    if "k < S" "i < c div 2" for k i
  proof -
    have "2 * i + 1 < c" using that by arith
    then show ?thesis using that by (simp add: pe_table_def pe_entry_def)
  qed
  have "pe_table S c 10000 ! 0 = concat (replicate (c div 2) [0, 1])"
    using S c by (simp add: pe_table_def pe_table_row0)
  moreover have "\<forall>k<S. length (pe_table S c 10000 ! k) = c"
    by (simp add: pe_table_def)
  moreover have "getPositionEncoding seq_len d 10000 = Inr (pe_table S c 10000)"
    using assms by (simp add: getPositionEncoding_table S_def c_def)
  ultimately show ?thesis
    using entries unfolding rc S_def [symmetric] c_def [symmetric] by simp
qed

theorem getPositionEncoding_closed_form_witness:
  "(0::int) < 5 \<and> (0::int) < 4 \<and> even (4::int) \<and>
   (\<exists>P. getPositionEncoding 5 4 10000 = Inr P \<and> length P = 5 \<and> P ! 0 = [0, 1, 0, 1] \<and>
        P ! 3 ! 2 = sin (3 / 100) \<and> P ! 3 ! 3 = cos (3 / 100))"
proof -
  obtain P where P: "getPositionEncoding 5 4 10000 = Inr P" "length P = nat 5"
      "\<forall>k<nat 5. length (P ! k) = nat 4 \<and>
              (\<forall>i<nat 4 div 2.
                 P ! k ! (2 * i) = sin (real k / 10000 powr (real (2 * i) / real_of_int 4)) \<and>
                 P ! k ! (2 * i + 1) = cos (real k / 10000 powr (real (2 * i) / real_of_int 4)))"
      "P ! 0 = concat (replicate (nat 4 div 2) [0, 1])"
    using getPositionEncoding_closed_form [of 5 4] by auto
  have "(3::nat) < nat 5" and "(1::nat) < nat 4 div 2" by simp_all
  with P(3) have "P ! 3 ! (2 * 1) = sin (real 3 / 10000 powr (real (2 * 1) / real_of_int 4)) \<and>
                 P ! 3 ! (2 * 1 + 1) = cos (real 3 / 10000 powr (real (2 * 1) / real_of_int 4))"
    by blast
  then have "P ! 3 ! 2 = sin (3 / 100) \<and> P ! 3 ! 3 = cos (3 / 100)"
    by simp
  moreover have "P ! 0 = [0, 1, 0, 1]"
  proof -
    have "nat 4 div 2 = Suc (Suc 0)" by simp
    then have "concat (replicate (nat 4 div 2) [0::real, 1]) = [0, 1, 0, 1]"
      by (simp only: replicate.simps concat.simps) simp
    with P(4) show ?thesis by simp
  qed
  ultimately show ?thesis using P(1,2) by simp
qed

section \<open>The attention head at a concrete input\<close>

lemma upt_4: "[0..<4] = [0, Suc 0, Suc (Suc 0), Suc (Suc (Suc 0))]"
  by (simp add: upt_rec numeral_eq_Suc)

lemma identity_linear_4_row:
  assumes "length r = 4"
  shows "linear_row (identity_linear 4) r = r"
proof -
  from assms obtain a b c d where r: "r = [a, b, c, d]"
    by (auto simp: length_Suc_conv numeral_eq_Suc)
  show ?thesis
    by (simp add: r linear_row_def identity_linear_def dot_def upt_4 numeral_eq_Suc)
qed

lemma Linear_forward_identity_4: "Linear_forward (identity_linear 4) x_2_4 = Inr x_2_4"
  by (simp add: x_2_4_def identity_linear_4_row) (simp add: identity_linear_def)

lemma q_k_softmax_head4:
  "q_k_softmax head4 x_2_4 = Inr (T2 2 [[1/4, 1/4], [1/4, 1/4]], x_2_4)"
  unfolding q_k_softmax_def head4_def
  apply (simp add: Linear_forward_identity_4)
  apply (simp add: x_2_4_def upt_4 mat_mul_def dot_def softmax_row_def Let_def)
  done

text \<open>
  Claim C1 says that \<open>AttentionHead.forward\<close> returns \<open>softmax (Q \<cdot> K\<^sup>T / sqrt d\<^sub>k) \<cdot> V\<close>. At the head
  with identity projections of width 4 and the input \<open>[[1,0,0,0],[1,0,0,0]]\<close> the code returns
  \<open>[[1/2,0,0,0],[1/2,0,0,0]]\<close>, the formula of the claim \<open>[[1,0,0,0],[1,0,0,0]]\<close>: the code
  divides by \<open>sqrt d\<^sub>k\<close> after the softmax.
\<close>

theorem AttentionHead_forward_scales_after_softmax:
  "AttentionHead_forward head4 x_2_4 = Inr (T2 4 [[1/2, 0, 0, 0], [1/2, 0, 0, 0]]) \<and>
   spec_attention head4 x_2_4 = Inr (T2 4 [[1, 0, 0, 0], [1, 0, 0, 0]]) \<and>
   AttentionHead_forward head4 x_2_4 \<noteq> spec_attention head4 x_2_4"
proof -
  have code: "AttentionHead_forward head4 x_2_4 = Inr (T2 4 [[1/2, 0, 0, 0], [1/2, 0, 0, 0]])"
    unfolding AttentionHead_forward_def
    by (simp add: q_k_softmax_head4) (simp add: x_2_4_def upt_4 mat_mul_def dot_def)
  have spec: "spec_attention head4 x_2_4 = Inr (T2 4 [[1, 0, 0, 0], [1, 0, 0, 0]])"
    unfolding spec_attention_def head4_def
    apply (simp add: Linear_forward_identity_4)
    apply (simp add: x_2_4_def upt_4 mat_mul_def dot_def softmax_row_def Let_def)
    done
  show ?thesis
    by (simp add: code spec)
qed

text \<open>
  Claim C3 says that every row of the matrix that multiplies \<open>V\<close> sums to 1. At the same head
  and input that matrix is \<open>[[1/4,1/4],[1/4,1/4]]\<close>: its rows sum to \<open>1/2 = 1 / sqrt 4\<close>.
\<close>

theorem q_k_softmax_rows_sum_to_half:
  "\<exists>w v. q_k_softmax head4 x_2_4 = Inr (T2 2 w, v) \<and> map sum_list w = [1/2, 1/2]"
  by (simp add: q_k_softmax_head4)

section \<open>Construction\<close>

lemma raises_simps [simp]: "raises (Inl e)" "\<not> raises (Inr a)"
  by (simp_all add: raises_def)

lemma raises_bind_left: "raises m \<Longrightarrow> raises (bind m f)"
  by (cases m) simp_all

lemma nn_Linear_ok:
  "0 \<le> i \<Longrightarrow> 0 \<le> j \<Longrightarrow>
   \<exists>l. nn_Linear w i j = Inr l \<and> in_features l = nat i \<and> out_features l = nat j"
  by (simp add: nn_Linear_def)

lemma nn_Linear_negative: "i < 0 \<or> j < 0 \<Longrightarrow> nn_Linear w i j = Inl NegativeDim"
  by (simp add: nn_Linear_def)

text \<open>
  Claim C10. For every \<open>num_layers \<le> 2\<close>, zero and negative values included, and sizes and a
  dropout probability that torch accepts, \<open>FFN.__init__\<close> raises nothing and builds the layers
  of \<open>num_layers = 2\<close>: \<open>Linear(input_size, hidden_size)\<close>, \<open>ReLU\<close>, \<open>Dropout\<close>,
  \<open>Linear(hidden_size, output_size)\<close>.
\<close>

theorem FFN_init_num_layers_le_2:
  assumes "num_layers \<le> 2"
    and "0 \<le> input_size" and "0 \<le> hidden_size" and "0 \<le> output_size"
    and "0 \<le> dropout_p" and "dropout_p \<le> 1"
  shows "\<exists>l1 l2. nn_Linear w input_size hidden_size = Inr l1 \<and>
           nn_Linear w hidden_size output_size = Inr l2 \<and>
           FFN_init w input_size hidden_size output_size num_layers dropout_p
             = Inr [Linear l1, ReLU, Dropout dropout_p, Linear l2] \<and>
           FFN_init w input_size hidden_size output_size num_layers dropout_p
             = FFN_init w input_size hidden_size output_size 2 dropout_p"
proof -
  obtain l1 where l1: "nn_Linear w input_size hidden_size = Inr l1"
    using assms nn_Linear_ok by blast
  obtain l2 where l2: "nn_Linear w hidden_size output_size = Inr l2"
    using assms nn_Linear_ok by blast
  have d: "nn_Dropout dropout_p = Inr (Dropout dropout_p)"
    using assms by (simp add: nn_Dropout_def)
  have n: "nat (num_layers - 2) = 0"
    using assms by simp
  have "FFN_init w input_size hidden_size output_size num_layers dropout_p
          = Inr [Linear l1, ReLU, Dropout dropout_p, Linear l2]"
    unfolding FFN_init_def by (simp add: l1 l2 d n)
  moreover have "FFN_init w input_size hidden_size output_size 2 dropout_p
          = Inr [Linear l1, ReLU, Dropout dropout_p, Linear l2]"
    unfolding FFN_init_def by (simp add: l1 l2 d)
  ultimately show ?thesis
    using l1 l2 by simp
qed

theorem FFN_init_num_layers_le_2_witness:
  "(-1::int) \<le> 2 \<and> (0::int) \<le> 4 \<and> (0::int) \<le> 8 \<and> (0::real) \<le> 1/10 \<and> (1/10::real) \<le> 1 \<and>
   (\<exists>l1 l2. FFN_init zero_init 4 8 4 (-1) (1/10) = Inr [Linear l1, ReLU, Dropout (1/10), Linear l2]) \<and>
   FFN_init zero_init 4 8 4 (-1) (1/10) = FFN_init zero_init 4 8 4 2 (1/10)"
  using FFN_init_num_layers_le_2 [of "-1" 4 8 4 "1/10" zero_init] by auto

lemma FFN_init_small_ok:
  assumes "num_layers \<le> 2"
    and "0 \<le> input_size" and "0 \<le> hidden_size" and "0 \<le> output_size"
    and "0 \<le> dropout_p" and "dropout_p \<le> 1"
  shows "\<not> raises (FFN_init w input_size hidden_size output_size num_layers dropout_p)"
proof -
  obtain l1 where l1: "nn_Linear w input_size hidden_size = Inr l1"
    using assms nn_Linear_ok by blast
  obtain l2 where l2: "nn_Linear w hidden_size output_size = Inr l2"
    using assms nn_Linear_ok by blast
  have d: "nn_Dropout dropout_p = Inr (Dropout dropout_p)"
    using assms by (simp add: nn_Dropout_def)
  have n: "nat (num_layers - 2) = 0"
    using assms by simp
  show ?thesis
    unfolding FFN_init_def by (simp add: l1 l2 d n)
qed

lemma AttentionHead_init_ok:
  "0 \<le> Qn \<Longrightarrow> 0 \<le> Kn \<Longrightarrow> 0 \<le> Vn \<Longrightarrow> \<not> raises (AttentionHead_init w Qn Kn Vn)"
  by (simp add: AttentionHead_init_def nn_Linear_def)

lemma for_loop_collect_ok:
  assumes "\<not> raises m"
  shows "\<not> raises (for_loop xs (\<lambda>_ acc. bind m (\<lambda>a. Inr (acc @ [a]))) acc0)"
proof (induction xs arbitrary: acc0)
  case Nil
  show ?case by simp
next
  case (Cons x xs)
  from assms obtain a where "m = Inr a" by (cases m) simp_all
  with Cons show ?case by simp
qed

lemma MultiHeadAttention_init_ok:
  assumes "0 \<le> Qn" "0 \<le> Kn" "0 \<le> Vn" "0 \<le> num_heads"
  shows "\<not> raises (MultiHeadAttention_init w Qn Kn Vn num_heads)"
proof -
  have "0 \<le> num_heads * Vn" using assms by simp
  then obtain l where l: "nn_Linear w (num_heads * Vn) Vn = Inr l"
    using assms nn_Linear_ok by blast
  have "\<not> raises (for_loop [0..<nat num_heads]
             (\<lambda>_ hs. bind (AttentionHead_init w Qn Kn Vn) (\<lambda>h. Inr (hs @ [h]))) [])"
    using assms by (intro for_loop_collect_ok AttentionHead_init_ok)
  then obtain hs where "for_loop [0..<nat num_heads]
             (\<lambda>_ hs. bind (AttentionHead_init w Qn Kn Vn) (\<lambda>h. Inr (hs @ [h]))) [] = Inr hs"
    by (cases "for_loop [0..<nat num_heads]
             (\<lambda>_ hs. bind (AttentionHead_init w Qn Kn Vn) (\<lambda>h. Inr (hs @ [h]))) []") simp_all
  then show ?thesis
    by (simp add: MultiHeadAttention_init_def l)
qed

lemma EncoderBlock_init_ok:
  assumes "0 \<le> Qn" "0 \<le> Kn" "0 \<le> Vn" "0 \<le> num_heads" "0 \<le> hidden_size"
    "num_layers \<le> 2" "0 \<le> dropout_p" "dropout_p \<le> 1"
  shows "\<not> raises (EncoderBlock_init w Qn Kn Vn num_heads hidden_size num_layers dropout_p)"
proof -
  obtain f where f: "FFN_init w Vn hidden_size Vn num_layers dropout_p = Inr f"
    using FFN_init_small_ok [of num_layers Vn hidden_size Vn dropout_p w] assms
    by (cases "FFN_init w Vn hidden_size Vn num_layers dropout_p") simp_all
  obtain m where m: "MultiHeadAttention_init w Qn Kn Vn num_heads = Inr m"
    using MultiHeadAttention_init_ok [of Qn Kn Vn num_heads w] assms
    by (cases "MultiHeadAttention_init w Qn Kn Vn num_heads") simp_all
  show ?thesis
    using assms by (simp add: EncoderBlock_init_def f m nn_LayerNorm_def)
qed

lemma Encoder_init_ok:
  assumes "0 \<le> Qn" "0 \<le> Kn" "0 \<le> Vn" "0 \<le> num_heads" "0 \<le> hidden_size"
    "num_layers \<le> 2" "0 \<le> dropout_p" "dropout_p \<le> 1" "0 \<le> max_len"
  shows "\<not> raises (Encoder_init w Qn Kn Vn num_heads num_enc max_len hidden_size num_layers dropout_p)"
proof -
  let ?loop = "for_loop [0..<nat num_enc]
             (\<lambda>_ bs. bind (EncoderBlock_init w Qn Kn Vn num_heads hidden_size num_layers dropout_p)
                       (\<lambda>b. Inr (bs @ [b]))) []"
  have "\<not> raises ?loop"
    using assms by (intro for_loop_collect_ok EncoderBlock_init_ok)
  then obtain bs where "?loop = Inr bs"
    by (cases ?loop) simp_all
  then show ?thesis
    using assms by (simp add: Encoder_init_def getPositionEncoding_table)
qed

text \<open>
  Claim C7 says that an invalid configuration (an FFN with \<open>num_layers < 2\<close>, a non-positive
  \<open>model_width\<close>, \<open>num_heads\<close> or \<open>max_sequence_length\<close>) raises at construction. The
  constructors check nothing: an FFN with \<open>num_layers\<close> 1 or 0 and an Encoder with
  \<open>max_len = 0\<close> are constructed.
\<close>

theorem construction_does_not_validate_counterexample:
  "\<not> raises (FFN_init zero_init 4 8 4 1 (1/10)) \<and>
   \<not> raises (FFN_init zero_init 4 8 4 0 (1/10)) \<and>
   \<not> raises (Encoder_init zero_init 4 4 4 2 1 0 8 2 (1/10))"
  by (simp add: FFN_init_small_ok Encoder_init_ok)

text \<open>
  Claim C7 as amended. An FFN with \<open>num_layers < 2\<close> is constructed without error when its
  sizes are not negative and its dropout probability is in \<open>[0, 1]\<close>. Constructing an Encoder
  raises when \<open>V\<close> (the model width) or \<open>max_len\<close> is negative, and constructing a
  MultiHeadAttention raises when \<open>V\<close> or \<open>num_heads * V\<close> is negative: the error comes from
  torch refusing a negative tensor size.
\<close>

theorem construction_errors:
  "(num_layers < 2 \<and> 0 \<le> input_size \<and> 0 \<le> hidden_size \<and> 0 \<le> output_size \<and>
      0 \<le> dropout_p \<and> dropout_p \<le> 1 \<longrightarrow>
      \<not> raises (FFN_init w input_size hidden_size output_size num_layers dropout_p)) \<and>
   (Vn < 0 \<or> max_len < 0 \<longrightarrow>
      raises (Encoder_init w Qn Kn Vn num_heads num_enc max_len hidden_size num_layers dropout_p)) \<and>
   (Vn < 0 \<or> num_heads * Vn < 0 \<longrightarrow> raises (MultiHeadAttention_init w Qn Kn Vn num_heads))"
proof -
  have enc: "raises (Encoder_init w Qn Kn Vn num_heads num_enc max_len hidden_size num_layers dropout_p)"
    if "Vn < 0 \<or> max_len < 0"
  proof -
    let ?loop = "for_loop [0..<nat num_enc]
             (\<lambda>_ bs. bind (EncoderBlock_init w Qn Kn Vn num_heads hidden_size num_layers dropout_p)
                       (\<lambda>b. Inr (bs @ [b]))) []"
    show ?thesis
    proof (cases ?loop)
      case (Inl e)
      then show ?thesis by (simp add: Encoder_init_def)
    next
      case (Inr bs)
      then show ?thesis
        using that by (auto simp add: Encoder_init_def getPositionEncoding_negative)
    qed
  qed
  have mha: "raises (MultiHeadAttention_init w Qn Kn Vn num_heads)" if "Vn < 0 \<or> num_heads * Vn < 0"
    using that by (auto simp add: MultiHeadAttention_init_def nn_Linear_negative)
  show ?thesis
    using enc mha FFN_init_small_ok [of num_layers input_size hidden_size output_size dropout_p w]
    by auto
qed

theorem construction_errors_witness:
  "((1::int) < 2 \<and> (0::int) \<le> 4 \<and> (0::int) \<le> 8 \<and> (0::real) \<le> 1/10 \<and> (1/10::real) \<le> 1) \<and>
   \<not> raises (FFN_init zero_init 4 8 4 1 (1/10)) \<and>
   (-1::int) < 0 \<and>
   raises (Encoder_init zero_init 4 4 4 (-2) 2 (-1) 8 1 (1/10)) \<and>
   (-2::int) * 4 < 0 \<and>
   raises (MultiHeadAttention_init zero_init 4 4 4 (-2))"
  using construction_errors [where num_layers = 1 and input_size = 4 and hidden_size = 8
      and output_size = 4 and dropout_p = "1/10" and w = zero_init and Vn = 4 and max_len = "-1"
      and Qn = 4 and Kn = 4 and num_heads = "-2" and num_enc = 2]
  by simp

section \<open>Shapes through the forward pass\<close>

lemma shape2E:
  assumes "shape z = [n, c]"
  obtains m where "z = T2 c m" "length m = n"
  using assms by (cases z) auto

lemma shape3E:
  assumes "shape z = [b, s, c]"
  obtains ms where "z = T3 s c ms" "length ms = b"
  using assms by (cases z) auto

lemma length_expand [simp]: "length (expand n xs) = n"
  by (simp add: expand_def)

lemma length_add_vec [simp]: "length (add_vec c u v) = c"
  by (simp add: add_vec_def)

lemma length_add_mat [simp]: "length (add_mat s c a b) = s"
  by (simp add: add_mat_def)

lemma wf_rows_add_mat [simp]: "wf_rows c (add_mat s c a b)"
  by (auto simp: wf_rows_def add_mat_def list_all_iff dest!: set_zip_leftD set_zip_rightD
      elim!: in_set_zipE)

lemma bdim_same [simp]: "bdim a a = Inr a"
  by (simp add: bdim_def)

lemma bdim_Inr: "bdim a b = Inr c \<Longrightarrow> (a = b \<and> c = a) \<or> (a = 1 \<and> c = b) \<or> (b = 1 \<and> c = a)"
  by (auto simp: bdim_def split: if_splits)

lemma bdim_fail: "a \<noteq> b \<Longrightarrow> a \<noteq> 1 \<Longrightarrow> b \<noteq> 1 \<Longrightarrow> bdim a b = Inl ShapeError"
  by (simp add: bdim_def)

lemma bdim_cases: "bdim a b = Inl ShapeError \<or> (\<exists>c. bdim a b = Inr c)"
  by (simp add: bdim_def)

lemma tensor_add_same_shape:
  assumes "shape x = [n, c]" "shape y = [n, c]"
  shows "\<exists>z. tensor_add x y = Inr z \<and> shape z = [n, c] \<and> wf z"
proof -
  from assms obtain mx my where "x = T2 c mx" "length mx = n" "y = T2 c my" "length my = n"
    by (auto elim!: shape2E)
  then show ?thesis by simp
qed

lemma wf_linear_row:
  "wf_linear l \<Longrightarrow> length (linear_row l r) = out_features l"
  by (simp add: wf_linear_def linear_row_def)

lemma Linear_forward_2d:
  assumes "wf_linear l" "in_features l = c" "shape x = [n, c]"
  shows "\<exists>z. Linear_forward l x = Inr z \<and> shape z = [n, out_features l] \<and> wf z"
proof -
  from assms obtain m where "x = T2 c m" "length m = n"
    by (auto elim!: shape2E)
  with assms show ?thesis
    by (simp add: wf_rows_def list_all_iff wf_linear_row)
qed

lemma transpose10_2d:
  assumes "shape x = [n, c]"
  shows "shape (transpose10 x) = [c, n] \<and> wf (transpose10 x)"
proof -
  from assms obtain m where "x = T2 c m" "length m = n"
    by (auto elim!: shape2E)
  then show ?thesis
    by (simp add: wf_rows_def list_all_iff)
qed

lemma matmul_2d:
  assumes "shape x = [n, k]" "shape y = [k, p]"
  shows "\<exists>z. matmul x y = Inr z \<and> shape z = [n, p] \<and> wf z"
proof -
  from assms obtain mx my where "x = T2 k mx" "length mx = n" "y = T2 p my" "length my = k"
    by (auto elim!: shape2E)
  then show ?thesis
    by (simp add: mat_mul_def wf_rows_def list_all_iff)
qed

lemma softmax_2d:
  assumes "shape x = [n, c]" "wf x"
  shows "shape (softmax x) = [n, c] \<and> wf (softmax x)"
proof -
  from assms obtain m where "x = T2 c m" "length m = n"
    by (auto elim!: shape2E)
  with assms show ?thesis
    by (simp add: wf_rows_def list_all_iff softmax_row_def)
qed

lemma tensor_div_2d:
  assumes "shape x = [n, c]" "wf x"
  shows "shape (tensor_div x a) = [n, c] \<and> wf (tensor_div x a)"
proof -
  from assms obtain m where "x = T2 c m" "length m = n"
    by (auto elim!: shape2E)
  with assms show ?thesis
    by (simp add: wf_rows_def list_all_iff)
qed

lemma relu_2d:
  assumes "shape x = [n, c]" "wf x"
  shows "shape (relu x) = [n, c] \<and> wf (relu x)"
proof -
  from assms obtain m where "x = T2 c m" "length m = n"
    by (auto elim!: shape2E)
  with assms show ?thesis
    by (simp add: wf_rows_def list_all_iff)
qed

lemma LayerNorm_forward_2d:
  assumes "normalized_shape nrm = c" "shape x = [n, c]"
  shows "\<exists>z. LayerNorm_forward nrm x = Inr z \<and> shape z = [n, c] \<and> wf z"
proof -
  from assms obtain m where "x = T2 c m" "length m = n"
    by (auto elim!: shape2E)
  with assms show ?thesis
    by (simp add: wf_rows_def list_all_iff layer_norm_row_def Let_def)
qed

lemma q_k_softmax_2d:
  assumes h: "wf_head d h" and x: "shape x = [n, d]"
  shows "\<exists>w v. q_k_softmax h x = Inr (w, v) \<and> shape w = [n, n] \<and> wf w \<and>
           shape v = [n, d] \<and> wf v"
proof -
  from h have Q: "wf_linear (Q h)" "in_features (Q h) = d" "out_features (Q h) = d"
    and K: "wf_linear (K h)" "in_features (K h) = d" "out_features (K h) = d"
    and V: "wf_linear (V h)" "in_features (V h) = d" "out_features (V h) = d"
    by (simp_all add: wf_head_def wf_square_def)
  obtain q where q: "Linear_forward (Q h) x = Inr q" "shape q = [n, d]"
    using Linear_forward_2d [OF Q(1,2) x] Q(3) by auto
  obtain k where k: "Linear_forward (K h) x = Inr k" "shape k = [n, d]"
    using Linear_forward_2d [OF K(1,2) x] K(3) by auto
  obtain v where v: "Linear_forward (V h) x = Inr v" "shape v = [n, d]" "wf v"
    using Linear_forward_2d [OF V(1,2) x] V(3) by auto
  have kt: "shape (transpose10 k) = [d, n]"
    using transpose10_2d [OF k(2)] by simp
  obtain s where s: "matmul q (transpose10 k) = Inr s" "shape s = [n, n]" "wf s"
    using matmul_2d [OF q(2) kt] by auto
  have "shape (tensor_div (softmax s) a) = [n, n] \<and> wf (tensor_div (softmax s) a)" for a
    using softmax_2d [OF s(2,3)] tensor_div_2d by blast
  then show ?thesis
    by (simp add: q_k_softmax_def q k v s Let_def)
qed

lemma AttentionHead_forward_2d:
  assumes "wf_head d h" and "shape x = [n, d]"
  shows "\<exists>z. AttentionHead_forward h x = Inr z \<and> shape z = [n, d] \<and> wf z"
proof -
  obtain w v where wv: "q_k_softmax h x = Inr (w, v)" "shape w = [n, n]" "shape v = [n, d]"
    using q_k_softmax_2d [OF assms] by blast
  show ?thesis
    using matmul_2d [OF wv(2,3)] by (simp add: AttentionHead_forward_def wv(1))
qed

lemma cat_pair_2d:
  assumes "shape x = [n, c1]" "wf x" "shape y = [n, c2]" "wf y"
  shows "\<exists>z. cat_pair x y = Inr z \<and> shape z = [n, c1 + c2] \<and> wf z"
proof -
  from assms obtain mx my where "x = T2 c1 mx" "length mx = n" "y = T2 c2 my" "length my = n"
    by (auto elim!: shape2E)
  with assms show ?thesis
    by (auto simp: wf_rows_def list_all_iff elim!: in_set_zipE)
qed

lemma cat1_2d:
  assumes "zs \<noteq> []" "list_all (\<lambda>z. shape z = [n, d] \<and> wf z) zs"
  shows "\<exists>z. cat1 zs = Inr z \<and> shape z = [n, length zs * d] \<and> wf z"
  using assms
proof (induction zs rule: cat1.induct)
  case 1
  then show ?case by simp
next
  case (2 t)
  then show ?case by simp
next
  case (3 t u us)
  then obtain z where z: "cat1 (u # us) = Inr z" "shape z = [n, length (u # us) * d]" "wf z"
    by auto
  from 3 have t: "shape t = [n, d]" "wf t" by simp_all
  show ?case
    using cat_pair_2d [OF t z(2,3)] by (simp add: z(1))
qed

lemma for_loop_collect:
  assumes "list_all (\<lambda>h. \<exists>z. f h = Inr z \<and> G z) hs" "list_all G acc"
  shows "\<exists>zs. for_loop hs (\<lambda>h z. bind (f h) (\<lambda>zi. Inr (z @ [zi]))) acc = Inr zs \<and>
           length zs = length acc + length hs \<and> list_all G zs"
  using assms
proof (induction hs arbitrary: acc)
  case Nil
  then show ?case by simp
next
  case (Cons h hs)
  then obtain z where z: "f h = Inr z" "G z" by auto
  have "list_all G (acc @ [z])" using Cons.prems(2) z(2) by simp
  from Cons.IH [OF _ this] Cons.prems(1) show ?case
    by (simp add: z(1))
qed

lemma MultiHeadAttention_forward_2d:
  assumes m: "wf_mha d m" and x: "shape x = [n, d]"
  shows "\<exists>z. MultiHeadAttention_forward m x = Inr z \<and> shape z = [n, d] \<and> wf z"
proof -
  let ?G = "\<lambda>z. shape z = [n, d] \<and> wf z"
  from m have heads: "attention_heads m \<noteq> []" "list_all (wf_head d) (attention_heads m)"
    and l: "wf_linear (linear_merge m)"
      "in_features (linear_merge m) = length (attention_heads m) * d"
      "out_features (linear_merge m) = d"
    by (simp_all add: wf_mha_def)
  have "list_all (\<lambda>h. \<exists>z. AttentionHead_forward h x = Inr z \<and> ?G z) (attention_heads m)"
    using heads(2) AttentionHead_forward_2d [OF _ x] by (simp add: list_all_iff)
  from for_loop_collect [where G = ?G and acc = "[]", OF this]
  obtain zs where zs: "for_loop (attention_heads m)
        (\<lambda>h z. bind (AttentionHead_forward h x) (\<lambda>zi. Inr (z @ [zi]))) [] = Inr zs"
      "length zs = length (attention_heads m)" "list_all ?G zs"
    by auto
  from zs(2) heads(1) have "zs \<noteq> []" by auto
  from cat1_2d [OF this zs(3)] obtain c where
    c: "cat1 zs = Inr c" "shape c = [n, length (attention_heads m) * d]"
    by (auto simp: zs(2))
  show ?thesis
    using Linear_forward_2d [OF l(1,2) c(2)] l(3)
    by (simp add: MultiHeadAttention_forward_def zs(1) c(1))
qed

lemma layer_forward_2d:
  assumes "ffn_width [a] c = Some c'" "shape x = [n, c]" "wf x"
  shows "\<exists>z. layer_forward a x = Inr z \<and> shape z = [n, c'] \<and> wf z"
proof (cases a)
  case (Linear l)
  with assms have "wf_linear l" "in_features l = c" "out_features l = c'"
    by (auto split: if_splits)
  with Linear_forward_2d [OF this(1,2) assms(2)] Linear show ?thesis by simp
next
  case ReLU
  with assms relu_2d [OF assms(2,3)] show ?thesis by simp
next
  case (Dropout p)
  with assms show ?thesis by simp
qed

lemma ffn_width_Cons:
  "ffn_width (a # ls) c = Some c' \<Longrightarrow> \<exists>c1. ffn_width [a] c = Some c1 \<and> ffn_width ls c1 = Some c'"
  by (cases a) (auto split: if_splits)

lemma FFN_forward_2d:
  assumes "ffn_width ls c = Some c'" "shape x = [n, c]" "wf x"
  shows "\<exists>z. FFN_forward ls x = Inr z \<and> shape z = [n, c'] \<and> wf z"
  using assms unfolding FFN_forward_def
proof (induction ls arbitrary: x c)
  case Nil
  then show ?case by simp
next
  case (Cons a ls)
  from ffn_width_Cons [OF Cons.prems(1)] obtain c1 where
    c1: "ffn_width [a] c = Some c1" "ffn_width ls c1 = Some c'" by blast
  from layer_forward_2d [OF c1(1) Cons.prems(2,3)] obtain y where
    y: "layer_forward a x = Inr y" "shape y = [n, c1]" "wf y" by blast
  from Cons.IH [OF c1(2) y(2,3)] show ?case
    by (simp add: y(1))
qed

lemma EncoderBlock_forward_2d:
  assumes b: "wf_block d b" and x: "shape x = [n, d]"
  shows "\<exists>z. EncoderBlock_forward b x = Inr z \<and> shape z = [n, d] \<and> wf z"
proof -
  from b have f: "ffn_width (ffn b) d = Some d" and m: "wf_mha d (multi_head_attention b)"
    and n1: "normalized_shape (layer_norm1 b) = d" and n2: "normalized_shape (layer_norm2 b) = d"
    by (simp_all add: wf_block_def)
  obtain z where z: "MultiHeadAttention_forward (multi_head_attention b) x = Inr z"
      "shape z = [n, d]"
    using MultiHeadAttention_forward_2d [OF m x] by blast
  obtain xz where xz: "tensor_add x z = Inr xz" "shape xz = [n, d]"
    using tensor_add_same_shape [OF x z(2)] by blast
  obtain y where y: "LayerNorm_forward (layer_norm1 b) xz = Inr y" "shape y = [n, d]" "wf y"
    using LayerNorm_forward_2d [OF n1 xz(2)] by blast
  obtain z1 where z1: "FFN_forward (ffn b) y = Inr z1" "shape z1 = [n, d]"
    using FFN_forward_2d [OF f y(2,3)] by blast
  obtain yz where yz: "tensor_add y z1 = Inr yz" "shape yz = [n, d]"
    using tensor_add_same_shape [OF y(2) z1(2)] by blast
  show ?thesis
    using LayerNorm_forward_2d [OF n2 yz(2)]
    by (simp add: EncoderBlock_forward_def z(1) xz(1) y(1) z1(1) yz(1))
qed

lemma blocks_forward_2d:
  assumes "list_all (wf_block d) bs" "shape x = [n, d]" "wf x"
  shows "\<exists>z. for_loop bs EncoderBlock_forward x = Inr z \<and> shape z = [n, d] \<and> wf z"
  using assms
proof (induction bs arbitrary: x)
  case Nil
  then show ?case by simp
next
  case (Cons b bs)
  then obtain y where y: "EncoderBlock_forward b x = Inr y" "shape y = [n, d]" "wf y"
    using EncoderBlock_forward_2d [of d b x n] by auto
  from Cons.IH [OF _ y(2,3)] Cons.prems(1) show ?case
    by (simp add: y(1))
qed

lemma bind_for_loop_Nil [simp]: "bind m (for_loop [] body) = m"
  by (cases m) simp_all

lemma for_loop_index:
  assumes "n \<le> length bs"
  shows "for_loop [0..<n] (\<lambda>i z. if i < length bs then F (bs ! i) z else Inl IndexError) x
           = for_loop (take n bs) F x"
  using assms
proof (induction n)
  case 0
  show ?case by simp
next
  case (Suc n)
  let ?body = "\<lambda>i z. if i < length bs then F (bs ! i) z else Inl IndexError"
  have take: "take (Suc n) bs = take n bs @ [bs ! n]"
    using Suc.prems by (simp add: take_Suc_conv_app_nth)
  have last: "for_loop [n] ?body = for_loop [bs ! n] F"
    using Suc.prems by (intro ext) simp
  have "for_loop [0..<Suc n] ?body x = bind (for_loop [0..<n] ?body x) (for_loop [n] ?body)"
    by (simp add: for_loop_append)
  also have "\<dots> = bind (for_loop (take n bs) F x) (for_loop [bs ! n] F)"
    using Suc by (simp only: last)
  also have "\<dots> = for_loop (take (Suc n) bs) F x"
    by (simp only: take for_loop_append)
  finally show ?case .
qed

lemma Encoder_forward_sequential:
  assumes "num_encoder e = int (length (multiencoder e))"
  shows "Encoder_forward e x =
           bind (tensor_add x (pos_encoding e)) (for_loop (multiencoder e) EncoderBlock_forward)"
proof -
  have n: "nat (num_encoder e) = length (multiencoder e)"
    using assms by simp
  have "for_loop [0..<length (multiencoder e)]
          (\<lambda>i z. if i < length (multiencoder e) then EncoderBlock_forward (multiencoder e ! i) z
                 else Inl IndexError)
        = for_loop (multiencoder e) EncoderBlock_forward"
    by (intro ext) (simp add: for_loop_index)
  then show ?thesis
    unfolding Encoder_forward_def by (simp add: n)
qed

section \<open>Broadcasting and batched input\<close>

lemma tensor_add_2d:
  assumes "shape x = [n1, c1]" "shape y = [n2, c2]" "bdim c1 c2 = Inr c" "bdim n1 n2 = Inr n"
  shows "\<exists>z. tensor_add x y = Inr z \<and> shape z = [n, c] \<and> wf z"
proof -
  from assms obtain mx my where "x = T2 c1 mx" "length mx = n1" "y = T2 c2 my" "length my = n2"
    by (auto elim!: shape2E)
  with assms show ?thesis by simp
qed

lemma tensor_add_2d_rows_mismatch:
  assumes "shape x = [n1, c1]" "shape y = [n2, c2]" "n1 \<noteq> n2" "n1 \<noteq> 1" "n2 \<noteq> 1"
  shows "tensor_add x y = Inl ShapeError"
proof -
  from assms obtain mx my where xy: "x = T2 c1 mx" "length mx = n1" "y = T2 c2 my" "length my = n2"
    by (auto elim!: shape2E)
  have "bdim n1 n2 = Inl ShapeError"
    using assms by (simp add: bdim_fail)
  then show ?thesis
    using bdim_cases [of c1 c2] by (auto simp: xy)
qed

lemma tensor_add_3d_2d_rows_mismatch:
  assumes "shape x = [b, n1, c1]" "shape y = [n2, c2]" "n1 \<noteq> n2" "n1 \<noteq> 1" "n2 \<noteq> 1"
  shows "tensor_add x y = Inl ShapeError"
proof -
  from assms obtain mx my where xy: "x = T3 n1 c1 mx" "y = T2 c2 my" "length my = n2"
    by (auto elim!: shape2E shape3E)
  have "bdim n1 n2 = Inl ShapeError"
    using assms by (simp add: bdim_fail)
  then show ?thesis
    using bdim_cases [of c1 c2] by (auto simp: xy add3_def)
qed

lemma tensor_add_3d_2d_shape:
  assumes "shape x = [b, s, c]" "shape y = [L, d]" "tensor_add x y = Inr z" "s \<noteq> 1" "b \<noteq> 1"
  shows "\<exists>c'. shape z = [b, s, c']"
proof -
  from assms obtain mx my where xy: "x = T3 s c mx" "length mx = b" "y = T2 d my" "length my = L"
    by (auto elim!: shape2E shape3E)
  from assms(3) obtain c' s' b' where
    r: "bdim c d = Inr c'" "bdim s L = Inr s'" "bdim b 1 = Inr b'" "shape z = [b', s', c']"
    unfolding xy using xy(2,4)
    by (cases "bdim c d"; cases "bdim s L"; cases "bdim b 1") (auto simp: add3_def)
  from bdim_Inr [OF r(2)] assms(4) have "s' = s" by auto
  moreover from bdim_Inr [OF r(3)] assms(5) have "b' = b" by auto
  ultimately show ?thesis using r(4) by simp
qed

lemma Linear_forward_3d:
  assumes "shape x = [b, s, c]"
  shows "Linear_forward l x = Inl ShapeError \<or>
         (\<exists>z. Linear_forward l x = Inr z \<and> shape z = [b, s, out_features l])"
proof -
  from assms obtain mx where "x = T3 s c mx" "length mx = b"
    by (auto elim!: shape3E)
  then show ?thesis by simp
qed

lemma matmul_transposed_batch:
  assumes "shape q = [b, s, c1]" "shape k = [b, s, c2]" "b \<noteq> s" "b \<noteq> 1" "s \<noteq> 1"
  shows "matmul q (transpose10 k) = Inl ShapeError"
proof -
  from assms obtain mq mk where "q = T3 s c1 mq" "length mq = b" "k = T3 s c2 mk" "length mk = b"
    by (auto elim!: shape3E)
  with assms show ?thesis
    by (simp add: matmul3_def bdim_fail)
qed

lemma q_k_softmax_batched:
  assumes "shape x = [b, s, c]" "b \<noteq> s" "b \<noteq> 1" "s \<noteq> 1"
  shows "q_k_softmax h x = Inl ShapeError"
proof -
  consider "Linear_forward (Q h) x = Inl ShapeError"
    | q where "Linear_forward (Q h) x = Inr q" "shape q = [b, s, out_features (Q h)]"
    using Linear_forward_3d [OF assms(1), of "Q h"] by blast
  then show ?thesis
  proof cases
    case 1
    then show ?thesis by (simp add: q_k_softmax_def)
  next
    case q: 2
    consider "Linear_forward (K h) x = Inl ShapeError"
      | k where "Linear_forward (K h) x = Inr k" "shape k = [b, s, out_features (K h)]"
      using Linear_forward_3d [OF assms(1), of "K h"] by blast
    then show ?thesis
    proof cases
      case 1
      then show ?thesis by (simp add: q_k_softmax_def q(1))
    next
      case k: 2
      consider "Linear_forward (V h) x = Inl ShapeError"
        | v where "Linear_forward (V h) x = Inr v"
        using Linear_forward_3d [OF assms(1), of "V h"] by blast
      then show ?thesis
      proof cases
        case 1
        then show ?thesis by (simp add: q_k_softmax_def q(1) k(1))
      next
        case v: 2
        have "matmul q (transpose10 k) = Inl ShapeError"
          using matmul_transposed_batch [OF q(2) k(2) assms(2-4)] .
        then show ?thesis
          by (simp add: q_k_softmax_def q(1) k(1) v Let_def)
      qed
    qed
  qed
qed

lemma MultiHeadAttention_forward_batched:
  assumes "shape x = [b, s, c]" "b \<noteq> s" "b \<noteq> 1" "s \<noteq> 1"
  shows "raises (MultiHeadAttention_forward m x)"
proof (cases "attention_heads m")
  case Nil
  then show ?thesis by (simp add: MultiHeadAttention_forward_def)
next
  case (Cons h hs)
  have "AttentionHead_forward h x = Inl ShapeError"
    by (simp add: AttentionHead_forward_def q_k_softmax_batched [OF assms])
  then show ?thesis
    by (simp add: MultiHeadAttention_forward_def Cons)
qed

lemma EncoderBlock_forward_batched:
  assumes "shape x = [b, s, c]" "b \<noteq> s" "b \<noteq> 1" "s \<noteq> 1"
  shows "raises (EncoderBlock_forward blk x)"
  unfolding EncoderBlock_forward_def
  by (rule raises_bind_left) (rule MultiHeadAttention_forward_batched [OF assms])

lemma Encoder_forward_batched:
  assumes x: "shape x = [b, s, c]" "b \<noteq> s" "b \<noteq> 1" "s \<noteq> 1"
    and e: "1 \<le> num_encoder e" and p: "shape (pos_encoding e) = [L, d]"
  shows "raises (Encoder_forward e x)"
proof (cases "tensor_add x (pos_encoding e)")
  case (Inl err)
  then show ?thesis by (simp add: Encoder_forward_def)
next
  case (Inr z)
  from tensor_add_3d_2d_shape [OF x(1) p Inr x(4,3)] obtain c' where z: "shape z = [b, s, c']" ..
  from e have "[0..<nat (num_encoder e)] = 0 # [1..<nat (num_encoder e)]"
    by (simp add: upt_rec)
  moreover have "raises (if 0 < length (multiencoder e)
      then EncoderBlock_forward (multiencoder e ! 0) z else Inl IndexError)"
    using EncoderBlock_forward_batched [OF z x(2-4)] by simp
  ultimately show ?thesis
    by (simp add: Encoder_forward_def Inr raises_bind_left)
qed

section \<open>The encoder\<close>

lemma wf_linear_identity [simp]: "wf_square d (identity_linear d)"
  by (simp add: wf_square_def wf_linear_def identity_linear_def wf_rows_def list_all_iff)

lemma wf_linear_const [simp]:
  "wf_linear (const_linear i j a)" "in_features (const_linear i j a) = i"
  "out_features (const_linear i j a) = j"
  by (simp_all add: wf_linear_def const_linear_def wf_rows_def list_all_iff)

lemma wf_example_head [simp]: "wf_head d (example_head d)"
  by (simp add: wf_head_def example_head_def)

lemma wf_example_block: "0 < H \<Longrightarrow> wf_block d (example_block d H)"
  by (simp add: wf_block_def example_block_def wf_mha_def example_layer_norm_def list_all_iff)

lemma wf_example_encoder: "0 < H \<Longrightarrow> wf_encoder L d (example_encoder N H L d)"
  by (simp add: wf_encoder_def example_encoder_def wf_example_block list_all_iff)

lemma example_encoder_simps [simp]:
  "num_encoder (example_encoder N H L d) = int N"
  "shape (pos_encoding (example_encoder N H L d)) = [L, d]"
  by (simp_all add: example_encoder_def)

lemma shape_zeros2 [simp]: "shape (zeros2 n c) = [n, c]" "wf (zeros2 n c)"
  by (simp_all add: zeros2_def zeros_def wf_rows_def list_all_iff)

lemma shape_zeros3 [simp]: "shape (zeros3 b s c) = [b, s, c]"
  by (simp add: zeros3_def)

lemma Encoder_forward_2d:
  assumes e: "wf_encoder L d e" and x: "shape x = [n, c]"
    and c: "bdim c d = Inr d" and n: "bdim n L = Inr n'"
  shows "\<exists>z. Encoder_forward e x = Inr z \<and> shape z = [n', d] \<and> wf z"
proof -
  from e have bs: "list_all (wf_block d) (multiencoder e)"
    and ne: "num_encoder e = int (length (multiencoder e))"
    and p: "shape (pos_encoding e) = [L, d]"
    by (simp_all add: wf_encoder_def)
  obtain z0 where z0: "tensor_add x (pos_encoding e) = Inr z0" "shape z0 = [n', d]" "wf z0"
    using tensor_add_2d [OF x p c n] by blast
  show ?thesis
    using blocks_forward_2d [OF bs z0(2,3)]
    by (simp add: Encoder_forward_sequential [OF ne] z0(1))
qed

lemma Encoder_forward_rows_mismatch:
  assumes "shape (pos_encoding e) = [L, d]" "shape x = [n, c]" "n \<noteq> L" "n \<noteq> 1" "L \<noteq> 1"
  shows "Encoder_forward e x = Inl ShapeError"
  by (simp add: Encoder_forward_def tensor_add_2d_rows_mismatch [OF assms(2,1,3,4,5)])

text \<open>
  With \<open>seq_len = max_len\<close> the call goes through: the table is added once, before the first
  block, the result goes through the blocks of \<open>multiencoder\<close> in order, and the output has the
  shape of the input.
\<close>

lemma Encoder_forward_full_length:
  assumes "wf_encoder L d e" and "shape x = [L, d]" and "wf x"
  shows "\<exists>z0 z. tensor_add x (pos_encoding e) = Inr z0 \<and>
           for_loop (multiencoder e) EncoderBlock_forward z0 = Inr z \<and>
           Encoder_forward e x = Inr z \<and> shape z = shape x \<and> wf z"
proof -
  from assms(1) have bs: "list_all (wf_block d) (multiencoder e)"
    and ne: "num_encoder e = int (length (multiencoder e))"
    and p: "shape (pos_encoding e) = [L, d]"
    by (simp_all add: wf_encoder_def)
  obtain z0 where z0: "tensor_add x (pos_encoding e) = Inr z0" "shape z0 = [L, d]" "wf z0"
    using tensor_add_same_shape [OF assms(2) p] by blast
  obtain z where z: "for_loop (multiencoder e) EncoderBlock_forward z0 = Inr z"
      "shape z = [L, d]" "wf z"
    using blocks_forward_2d [OF bs z0(2,3)] by blast
  show ?thesis
    using z0(1) z assms(2) by (simp add: Encoder_forward_sequential [OF ne])
qed

lemma Encoder_forward_full_length_example:
  "wf_encoder 3 4 (example_encoder 2 2 3 4) \<and> shape (zeros2 3 4) = [3, 4] \<and> wf (zeros2 3 4) \<and>
   (\<exists>z. Encoder_forward (example_encoder 2 2 3 4) (zeros2 3 4) = Inr z \<and> shape z = [3, 4])"
  using Encoder_forward_full_length [of 3 4 "example_encoder 2 2 3 4" "zeros2 3 4"]
  by (auto simp: wf_example_encoder)

text \<open>
  Claim C2 says that \<open>Encoder.forward\<close> returns a tensor of the input's shape for every
  \<open>0 < seq_len \<le> max_sequence_length\<close>, adding \<open>PositionalEncoding[0:seq_len]\<close>. The code adds the
  whole table \<open>self.pos_encoding\<close>, without the slice. With 2 blocks, 2 heads, width 4 and
  \<open>max_len = 3\<close>, an input of 2 positions raises a shape error, and an input of 1 position is
  broadcast against the table and comes back with shape \<open>[3, 4]\<close> instead of \<open>[1, 4]\<close>.
\<close>

theorem Encoder_forward_adds_whole_table:
  "shape (pos_encoding (example_encoder 2 2 3 4)) = [3, 4] \<and>
   shape (zeros2 2 4) = [2, 4] \<and>
   Encoder_forward (example_encoder 2 2 3 4) (zeros2 2 4) = Inl ShapeError \<and>
   shape (zeros2 1 4) = [1, 4] \<and>
   (\<exists>z. Encoder_forward (example_encoder 2 2 3 4) (zeros2 1 4) = Inr z \<and> shape z = [3, 4])"
proof -
  have two: "Encoder_forward (example_encoder 2 2 3 4) (zeros2 2 4) = Inl ShapeError"
    by (simp add: Encoder_forward_rows_mismatch [where L = 3 and d = 4 and n = 2 and c = 4])
  have "\<exists>z. Encoder_forward (example_encoder 2 2 3 4) (zeros2 1 4) = Inr z \<and> shape z = [3, 4] \<and> wf z"
    by (rule Encoder_forward_2d [where L = 3 and n = 1 and c = 4])
      (simp_all add: wf_example_encoder bdim_def)
  with two show ?thesis by auto
qed

text \<open>
  Claim C5 says that a batched input of shape \<open>[2, 8, 16]\<close> goes through an encoder of 2 blocks and
  2 heads. It raises, with \<open>max_len = 8\<close> (in the first head, where \<open>[2, 8, 16]\<close> meets the
  transposed \<open>[8, 2, 16]\<close>) and with the default \<open>max_len = 512\<close> (in the positional addition).
\<close>

theorem Encoder_forward_batched_counterexample:
  "shape (zeros3 2 8 16) = [2, 8, 16] \<and>
   raises (Encoder_forward (example_encoder 2 2 8 16) (zeros3 2 8 16)) \<and>
   raises (Encoder_forward (example_encoder 2 2 512 16) (zeros3 2 8 16))"
  by (simp add: Encoder_forward_batched [where b = 2 and s = 8 and c = 16 and d = 16])

text \<open>
  Claim C5 as amended. On every batched input of 2 sequences of length 8 and width 16 (shape
  \<open>[2, 8, 16]\<close>), \<open>Encoder.forward\<close> of an encoder with at least one block raises an error,
  whatever the parameters and \<open>max_len\<close>: no output is produced.
\<close>

theorem Encoder_forward_batched_raises:
  assumes "shape x = [2, 8, 16]" and "1 \<le> num_encoder e" and "shape (pos_encoding e) = [L, d]"
  shows "raises (Encoder_forward e x)"
  using Encoder_forward_batched [OF assms(1) _ _ _ assms(2,3)] by simp

theorem Encoder_forward_batched_raises_witness:
  "shape (zeros3 2 8 16) = [2, 8, 16] \<and> 1 \<le> num_encoder (example_encoder 2 2 8 16) \<and>
   shape (pos_encoding (example_encoder 2 2 8 16)) = [8, 16] \<and>
   raises (Encoder_forward (example_encoder 2 2 8 16) (zeros3 2 8 16))"
  using Encoder_forward_batched_raises [of "zeros3 2 8 16" "example_encoder 2 2 8 16" 8 16]
  by simp

text \<open>
  Claim C6 says that an input longer than \<open>max_sequence_length\<close> fails on a bounds check. There is
  no such check: with \<open>max_len = 1\<close> an input of 2 positions raises nothing, the single row of
  the table is broadcast to both positions.
\<close>

theorem Encoder_forward_longer_than_max_len_counterexample:
  "(1::nat) < 2 \<and> shape (pos_encoding (example_encoder 1 1 1 4)) = [1, 4] \<and>
   shape (zeros2 2 4) = [2, 4] \<and>
   \<not> raises (Encoder_forward (example_encoder 1 1 1 4) (zeros2 2 4))"
proof -
  have "\<exists>z. Encoder_forward (example_encoder 1 1 1 4) (zeros2 2 4) = Inr z \<and> shape z = [2, 4] \<and> wf z"
    by (rule Encoder_forward_2d [where L = 1 and n = 2 and c = 4])
      (simp_all add: wf_example_encoder bdim_def)
  then show ?thesis by auto
qed

text \<open>
  Claim C6 as amended. For an input of \<open>seq_len\<close> positions with
  \<open>seq_len > max_sequence_length \<ge> 2\<close>, \<open>Encoder.forward\<close> fails with a shape error: it is raised by
  the broadcasting addition of the whole table, the first step of the call.
\<close>

theorem Encoder_forward_longer_than_max_len:
  assumes "shape (pos_encoding e) = [L, d]" and "shape x = [n, c]" and "L < n" and "2 \<le> L"
  shows "Encoder_forward e x = Inl ShapeError"
  using assms by (intro Encoder_forward_rows_mismatch [OF assms(1,2)]) simp_all

theorem Encoder_forward_longer_than_max_len_witness:
  "shape (pos_encoding (example_encoder 1 1 2 4)) = [2, 4] \<and> shape (zeros2 3 4) = [3, 4] \<and>
   (2::nat) < 3 \<and> (2::nat) \<le> 2 \<and>
   Encoder_forward (example_encoder 1 1 2 4) (zeros2 3 4) = Inl ShapeError"
  using Encoder_forward_longer_than_max_len [of "example_encoder 1 1 2 4" 2 4 "zeros2 3 4" 3 4]
  by simp





section \<open>Row sums of the attention weights\<close>

text \<open>
  For every well-formed head of width \<open>d > 0\<close> and every input with at least one position, each row
  of the matrix that multiplies \<open>v\<close> sums to \<open>1 / sqrt d\<close>: the softmax rows sum to 1 and are
  divided by \<open>sqrt d\<close> afterwards.
\<close>

lemma sum_list_divide: "sum_list (map (\<lambda>x. f x / a) xs) = sum_list (map f xs) / (a::real)"
  by (induction xs) (simp_all add: add_divide_distrib)

lemma sum_list_exp_pos: "xs \<noteq> [] \<Longrightarrow> 0 < sum_list (map exp (xs::real list))"
proof (induction xs)
  case Nil
  then show ?case by simp
next
  case (Cons x xs)
  have "0 \<le> sum_list (map exp xs)"
    by (rule sum_list_nonneg) auto
  moreover have "0 < exp x" by simp
  ultimately have "0 < exp x + sum_list (map exp xs)"
    by (rule add_pos_nonneg [rotated])
  then show ?case by simp
qed

lemma sum_list_softmax_row: "r \<noteq> [] \<Longrightarrow> sum_list (softmax_row r) = 1"
  using sum_list_exp_pos [of r] by (simp add: softmax_row_def sum_list_divide)

lemma q_k_softmax_row_sums:
  assumes h: "wf_head d h" and x: "shape x = [n, d]" and n: "0 < n" and d: "0 < d"
    and r: "q_k_softmax h x = Inr (w, v)"
  shows "\<exists>m. w = T2 n m \<and> length m = n \<and> list_all (\<lambda>r. sum_list r = 1 / sqrt (real d)) m"
proof -
  from h have Q: "wf_linear (Q h)" "in_features (Q h) = d" "out_features (Q h) = d"
    and K: "wf_linear (K h)" "in_features (K h) = d" "out_features (K h) = d"
    and V: "wf_linear (V h)" "in_features (V h) = d" "out_features (V h) = d"
    by (simp_all add: wf_head_def wf_square_def)
  obtain q where q: "Linear_forward (Q h) x = Inr q" "shape q = [n, d]"
    using Linear_forward_2d [OF Q(1,2) x] Q(3) by auto
  obtain k where k: "Linear_forward (K h) x = Inr k" "shape k = [n, d]"
    using Linear_forward_2d [OF K(1,2) x] K(3) by auto
  obtain v' where v: "Linear_forward (V h) x = Inr v'"
    using Linear_forward_2d [OF V(1,2) x] by auto
  have kt: "shape (transpose10 k) = [d, n]"
    using transpose10_2d [OF k(2)] by simp
  obtain s where s: "matmul q (transpose10 k) = Inr s" "shape s = [n, n]" "wf s"
    using matmul_2d [OF q(2) kt] by auto
  from s(2) obtain ms where ms: "s = T2 n ms" "length ms = n"
    by (auto elim!: shape2E)
  from s(3) ms n have rows: "\<forall>r\<in>set ms. r \<noteq> []"
    by (auto simp: wf_rows_def list_all_iff)
  from r have w: "w = tensor_div (softmax s) (sqrt (real d))"
    using k(2) by (simp add: q_k_softmax_def q(1) k(1) v s(1) Let_def)
  show ?thesis
    using rows ms(2)
    by (simp add: w ms(1) list_all_iff sum_list_divide [where f = "\<lambda>x. x", simplified]
        sum_list_softmax_row)
qed

end
